theory Spec2Isabelle
  imports Main "HOL-Library.Word"
begin

section \<open>The digest adapter of wolfEngine (src/digest.c)\<close>

text \<open>
  The file \<^verbatim>\<open>digest.c\<close> adapts the hash functions of wolfSSL to the digest-method
  interface of OpenSSL. Two external libraries meet in it and neither is part of the
  repository:
  \<^item> wolfSSL, the hash engine: \<^verbatim>\<open>wc_HashInit\<close>, \<^verbatim>\<open>wc_HashUpdate\<close>,
    \<^verbatim>\<open>wc_HashFinal\<close>, \<^verbatim>\<open>wc_HashFree\<close> (generic, keyed by
    \<^verbatim>\<open>enum wc_HashType\<close>) and \<^verbatim>\<open>wc_InitSha256\<close>, \<^verbatim>\<open>wc_Sha256Update\<close>,
    \<^verbatim>\<open>wc_Sha256Final\<close>, \<^verbatim>\<open>wc_Sha256Free\<close> (SHA-256 only);
  \<^item> OpenSSL, the method registry: \<^verbatim>\<open>EVP_MD_meth_new\<close>, the
    \<^verbatim>\<open>EVP_MD_meth_set_*\<close> setters and \<^verbatim>\<open>EVP_MD_meth_free\<close>.
  The engine is a parameter of every adapter function below (a record of functions from
  the handle to a status and the new handle), so a theorem about the adapter holds for
  every engine, the failing ones included. The tracing macros \<^verbatim>\<open>WOLFENGINE_ENTER\<close>,
  \<^verbatim>\<open>WOLFENGINE_LEAVE\<close>, \<^verbatim>\<open>WOLFENGINE_ERROR_FUNC\<close>, \<^verbatim>\<open>WOLFENGINE_MSG\<close>
  and \<^verbatim>\<open>WOLFENGINE_BUFFER\<close> only print and are left out.
\<close>

subsection \<open>C types\<close>

type_synonym byte = "8 word"
type_synonym word32 = "32 word"

text \<open>\<^verbatim>\<open>size_t\<close> on an LP64 platform: 64 bits. The adapter narrows it with
  \<^verbatim>\<open>(word32)len\<close>.\<close>

type_synonym size_t = "64 word"

text \<open>
  \<^verbatim>\<open>enum wc_HashType\<close> is declared by wolfSSL. The seven tags are the ones
  \<^verbatim>\<open>digest.c\<close> assigns; \<open>WC_HASH_TYPE_NONE\<close> is the enumeration's member for no
  algorithm, and stands for what a session holds before any of the initialisers has run.
\<close>

datatype wc_HashType =
    WC_HASH_TYPE_NONE
  | WC_HASH_TYPE_SHA256
  | WC_HASH_TYPE_SHA384
  | WC_HASH_TYPE_SHA512
  | WC_HASH_TYPE_SHA3_224
  | WC_HASH_TYPE_SHA3_256
  | WC_HASH_TYPE_SHA3_384
  | WC_HASH_TYPE_SHA3_512

text \<open>\<^verbatim>\<open>typedef struct we_Digest { wc_HashAlg hash; enum wc_HashType hashType; }\<close>;
  the engine handle \<^verbatim>\<open>wc_HashAlg\<close> is opaque, a type parameter.\<close>

record 'h we_Digest =
  hash :: 'h
  hashType :: wc_HashType

text \<open>Of OpenSSL's \<^verbatim>\<open>EVP_MD_CTX\<close> the adapter reads one thing, the application data
  pointer \<^verbatim>\<open>EVP_MD_CTX_md_data(ctx)\<close>; \<open>None\<close> is \<^verbatim>\<open>NULL\<close>.\<close>

record 'a EVP_MD_CTX =
  md_data :: "'a option"

text \<open>Writing or reading through a \<^verbatim>\<open>NULL\<close> application data pointer is a fault.\<close>

datatype fault = NullPointerDereference

subsection \<open>The hash engine\<close>

text \<open>
  Every engine function takes the handle and returns the status with the handle as the
  call left it. \<^verbatim>\<open>data\<close> is the memory readable at the pointer and the \<open>word32\<close> is the
  length passed with it; \<open>wc_HashFinal\<close> also returns the bytes it stored through
  \<^verbatim>\<open>md\<close>. Status 0 is success.
\<close>

record 'h wc_engine =
  wc_HashInit :: "'h \<Rightarrow> wc_HashType \<Rightarrow> int \<times> 'h"
  wc_HashUpdate :: "'h \<Rightarrow> wc_HashType \<Rightarrow> byte list \<Rightarrow> word32 \<Rightarrow> int \<times> 'h"
  wc_HashFinal :: "'h \<Rightarrow> wc_HashType \<Rightarrow> int \<times> 'h \<times> byte list"
  wc_HashFree :: "'h \<Rightarrow> wc_HashType \<Rightarrow> int \<times> 'h"
  wc_HashGetDigestSize :: "wc_HashType \<Rightarrow> int"

text \<open>
  The SHA-256 functions are handed the application data pointer as it is, \<^verbatim>\<open>NULL\<close>
  included (the fixed-function adapter never looks through it), so they take and return
  what is at the pointer as an option. \<^verbatim>\<open>wc_Sha256Free\<close> returns \<^verbatim>\<open>void\<close>.
\<close>

record 's wc_sha256_engine =
  wc_InitSha256 :: "'s option \<Rightarrow> int \<times> 's option"
  wc_Sha256Update :: "'s option \<Rightarrow> byte list \<Rightarrow> word32 \<Rightarrow> int \<times> 's option"
  wc_Sha256Final :: "'s option \<Rightarrow> int \<times> 's option \<times> byte list"
  wc_Sha256Free :: "'s option \<Rightarrow> 's option"

text \<open>The engine calls an adapter function makes, in order, each with its arguments.\<close>

datatype 'h wc_call =
    Call_wc_HashInit 'h wc_HashType
  | Call_wc_HashUpdate 'h wc_HashType "byte list" word32
  | Call_wc_HashFinal 'h wc_HashType
  | Call_wc_HashFree 'h wc_HashType

datatype 's wc_sha256_call =
    Call_wc_InitSha256 "'s option"
  | Call_wc_Sha256Update "'s option" "byte list" word32
  | Call_wc_Sha256Final "'s option"
  | Call_wc_Sha256Free "'s option"

text \<open>What an adapter function leaves behind: its return value, the context as it is
  afterwards, and the engine calls it made; for the finalisers also the bytes stored
  through \<^verbatim>\<open>md\<close>.\<close>

record ('c, 'k) outcome =
  ret_val :: int
  ctx_after :: 'c
  engine_calls :: "'k list"

record ('c, 'k) final_outcome = "('c, 'k) outcome" +
  md_out :: "byte list"

subsection \<open>Build configuration\<close>

text \<open>\<^verbatim>\<open>HAVE_FIPS_VERSION\<close>: \<open>None\<close> when the macro is not defined, else its value.
  \<^verbatim>\<open>we_digest_cleanup\<close> is compiled in two variants under
  \<^verbatim>\<open>#if !defined(HAVE_FIPS_VERSION) || HAVE_FIPS_VERSION >= 2\<close>.\<close>

type_synonym build_config = "nat option"

definition hash_free_compiled :: "build_config \<Rightarrow> bool" where
  "hash_free_compiled HAVE_FIPS_VERSION =
     (case HAVE_FIPS_VERSION of None \<Rightarrow> True | Some v \<Rightarrow> v \<ge> 2)"

subsection \<open>The generic path (\<^verbatim>\<open>WE_USE_HASH\<close>): initialisers\<close>

definition we_sha256_init ::
  "'h wc_engine \<Rightarrow> 'h we_Digest EVP_MD_CTX \<Rightarrow> fault + ('h we_Digest EVP_MD_CTX, 'h wc_call) outcome" where
  "we_sha256_init eng ctx =
     (case md_data ctx of
        None \<Rightarrow> Inl NullPointerDereference
      | Some d \<Rightarrow>
          let digest = d\<lparr>hashType := WC_HASH_TYPE_SHA256\<rparr>;
              (r, h) = wc_HashInit eng (hash digest) (hashType digest)
          in Inr \<lparr>ret_val = (if r \<noteq> 0 then 0 else 1),
                  ctx_after = ctx\<lparr>md_data := Some (digest\<lparr>hash := h\<rparr>)\<rparr>,
                  engine_calls = [Call_wc_HashInit (hash digest) (hashType digest)]\<rparr>)"

definition we_sha384_init ::
  "'h wc_engine \<Rightarrow> 'h we_Digest EVP_MD_CTX \<Rightarrow> fault + ('h we_Digest EVP_MD_CTX, 'h wc_call) outcome" where
  "we_sha384_init eng ctx =
     (case md_data ctx of
        None \<Rightarrow> Inl NullPointerDereference
      | Some d \<Rightarrow>
          let digest = d\<lparr>hashType := WC_HASH_TYPE_SHA384\<rparr>;
              (r, h) = wc_HashInit eng (hash digest) (hashType digest)
          in Inr \<lparr>ret_val = (if r \<noteq> 0 then 0 else 1),
                  ctx_after = ctx\<lparr>md_data := Some (digest\<lparr>hash := h\<rparr>)\<rparr>,
                  engine_calls = [Call_wc_HashInit (hash digest) (hashType digest)]\<rparr>)"

definition we_sha512_init ::
  "'h wc_engine \<Rightarrow> 'h we_Digest EVP_MD_CTX \<Rightarrow> fault + ('h we_Digest EVP_MD_CTX, 'h wc_call) outcome" where
  "we_sha512_init eng ctx =
     (case md_data ctx of
        None \<Rightarrow> Inl NullPointerDereference
      | Some d \<Rightarrow>
          let digest = d\<lparr>hashType := WC_HASH_TYPE_SHA512\<rparr>;
              (r, h) = wc_HashInit eng (hash digest) (hashType digest)
          in Inr \<lparr>ret_val = (if r \<noteq> 0 then 0 else 1),
                  ctx_after = ctx\<lparr>md_data := Some (digest\<lparr>hash := h\<rparr>)\<rparr>,
                  engine_calls = [Call_wc_HashInit (hash digest) (hashType digest)]\<rparr>)"

definition we_sha3_224_init ::
  "'h wc_engine \<Rightarrow> 'h we_Digest EVP_MD_CTX \<Rightarrow> fault + ('h we_Digest EVP_MD_CTX, 'h wc_call) outcome" where
  "we_sha3_224_init eng ctx =
     (case md_data ctx of
        None \<Rightarrow> Inl NullPointerDereference
      | Some d \<Rightarrow>
          let digest = d\<lparr>hashType := WC_HASH_TYPE_SHA3_224\<rparr>;
              (r, h) = wc_HashInit eng (hash digest) (hashType digest)
          in Inr \<lparr>ret_val = (if r \<noteq> 0 then 0 else 1),
                  ctx_after = ctx\<lparr>md_data := Some (digest\<lparr>hash := h\<rparr>)\<rparr>,
                  engine_calls = [Call_wc_HashInit (hash digest) (hashType digest)]\<rparr>)"

definition we_sha3_256_init ::
  "'h wc_engine \<Rightarrow> 'h we_Digest EVP_MD_CTX \<Rightarrow> fault + ('h we_Digest EVP_MD_CTX, 'h wc_call) outcome" where
  "we_sha3_256_init eng ctx =
     (case md_data ctx of
        None \<Rightarrow> Inl NullPointerDereference
      | Some d \<Rightarrow>
          let digest = d\<lparr>hashType := WC_HASH_TYPE_SHA3_256\<rparr>;
              (r, h) = wc_HashInit eng (hash digest) (hashType digest)
          in Inr \<lparr>ret_val = (if r \<noteq> 0 then 0 else 1),
                  ctx_after = ctx\<lparr>md_data := Some (digest\<lparr>hash := h\<rparr>)\<rparr>,
                  engine_calls = [Call_wc_HashInit (hash digest) (hashType digest)]\<rparr>)"

definition we_sha3_384_init ::
  "'h wc_engine \<Rightarrow> 'h we_Digest EVP_MD_CTX \<Rightarrow> fault + ('h we_Digest EVP_MD_CTX, 'h wc_call) outcome" where
  "we_sha3_384_init eng ctx =
     (case md_data ctx of
        None \<Rightarrow> Inl NullPointerDereference
      | Some d \<Rightarrow>
          let digest = d\<lparr>hashType := WC_HASH_TYPE_SHA3_384\<rparr>;
              (r, h) = wc_HashInit eng (hash digest) (hashType digest)
          in Inr \<lparr>ret_val = (if r \<noteq> 0 then 0 else 1),
                  ctx_after = ctx\<lparr>md_data := Some (digest\<lparr>hash := h\<rparr>)\<rparr>,
                  engine_calls = [Call_wc_HashInit (hash digest) (hashType digest)]\<rparr>)"

definition we_sha3_512_init ::
  "'h wc_engine \<Rightarrow> 'h we_Digest EVP_MD_CTX \<Rightarrow> fault + ('h we_Digest EVP_MD_CTX, 'h wc_call) outcome" where
  "we_sha3_512_init eng ctx =
     (case md_data ctx of
        None \<Rightarrow> Inl NullPointerDereference
      | Some d \<Rightarrow>
          let digest = d\<lparr>hashType := WC_HASH_TYPE_SHA3_512\<rparr>;
              (r, h) = wc_HashInit eng (hash digest) (hashType digest)
          in Inr \<lparr>ret_val = (if r \<noteq> 0 then 0 else 1),
                  ctx_after = ctx\<lparr>md_data := Some (digest\<lparr>hash := h\<rparr>)\<rparr>,
                  engine_calls = [Call_wc_HashInit (hash digest) (hashType digest)]\<rparr>)"

subsection \<open>The generic path: update, final, cleanup\<close>

definition we_digest_update ::
  "'h wc_engine \<Rightarrow> 'h we_Digest EVP_MD_CTX \<Rightarrow> byte list \<Rightarrow> size_t \<Rightarrow>
     fault + ('h we_Digest EVP_MD_CTX, 'h wc_call) outcome" where
  "we_digest_update eng ctx data len =
     (case md_data ctx of
        None \<Rightarrow> Inl NullPointerDereference
      | Some digest \<Rightarrow>
          let (r, h) = wc_HashUpdate eng (hash digest) (hashType digest) data (ucast len :: word32)
          in Inr \<lparr>ret_val = (if r \<noteq> 0 then 0 else 1),
                  ctx_after = ctx\<lparr>md_data := Some (digest\<lparr>hash := h\<rparr>)\<rparr>,
                  engine_calls =
                    [Call_wc_HashUpdate (hash digest) (hashType digest) data (ucast len :: word32)]\<rparr>)"

definition we_digest_final ::
  "'h wc_engine \<Rightarrow> 'h we_Digest EVP_MD_CTX \<Rightarrow>
     fault + ('h we_Digest EVP_MD_CTX, 'h wc_call) final_outcome" where
  "we_digest_final eng ctx =
     (case md_data ctx of
        None \<Rightarrow> Inl NullPointerDereference
      | Some digest \<Rightarrow>
          let (r, h, md) = wc_HashFinal eng (hash digest) (hashType digest)
          in Inr \<lparr>ret_val = (if r \<noteq> 0 then 0 else 1),
                  ctx_after = ctx\<lparr>md_data := Some (digest\<lparr>hash := h\<rparr>)\<rparr>,
                  engine_calls = [Call_wc_HashFinal (hash digest) (hashType digest)],
                  md_out = md\<rparr>)"

definition we_digest_cleanup ::
  "build_config \<Rightarrow> 'h wc_engine \<Rightarrow> 'h we_Digest EVP_MD_CTX \<Rightarrow>
     ('h we_Digest EVP_MD_CTX, 'h wc_call) outcome" where
  "we_digest_cleanup HAVE_FIPS_VERSION eng ctx =
     (if hash_free_compiled HAVE_FIPS_VERSION then
        (case md_data ctx of
           Some digest \<Rightarrow>
             let (r, h) = wc_HashFree eng (hash digest) (hashType digest)
             in \<lparr>ret_val = (if r \<noteq> 0 then 0 else 1),
                 ctx_after = ctx\<lparr>md_data := Some (digest\<lparr>hash := h\<rparr>)\<rparr>,
                 engine_calls = [Call_wc_HashFree (hash digest) (hashType digest)]\<rparr>
         | None \<Rightarrow> \<lparr>ret_val = 1, ctx_after = ctx, engine_calls = []\<rparr>)
      else \<lparr>ret_val = 1, ctx_after = ctx, engine_calls = []\<rparr>)"

subsection \<open>The fixed-function path (\<^verbatim>\<open>WE_SHA256_DIRECT\<close>)\<close>

text \<open>
  In this build the application data is a \<^verbatim>\<open>wc_Sha256\<close> and the four functions carry
  the names \<^verbatim>\<open>we_sha256_init\<close>, \<^verbatim>\<open>we_sha256_update\<close>, \<^verbatim>\<open>we_sha256_final\<close>
  and \<^verbatim>\<open>we_sha256_cleanup\<close>. The generic build defines \<^verbatim>\<open>we_sha256_init\<close> too, so the
  fixed-function ones are prefixed \<open>direct_\<close> here.
\<close>

definition direct_we_sha256_init ::
  "'s wc_sha256_engine \<Rightarrow> 's EVP_MD_CTX \<Rightarrow> ('s EVP_MD_CTX, 's wc_sha256_call) outcome" where
  "direct_we_sha256_init se ctx =
     (let (r, s) = wc_InitSha256 se (md_data ctx)
      in \<lparr>ret_val = (if r \<noteq> 0 then 0 else 1),
          ctx_after = ctx\<lparr>md_data := s\<rparr>,
          engine_calls = [Call_wc_InitSha256 (md_data ctx)]\<rparr>)"

definition direct_we_sha256_update ::
  "'s wc_sha256_engine \<Rightarrow> 's EVP_MD_CTX \<Rightarrow> byte list \<Rightarrow> size_t \<Rightarrow>
     ('s EVP_MD_CTX, 's wc_sha256_call) outcome" where
  "direct_we_sha256_update se ctx data len =
     (let (r, s) = wc_Sha256Update se (md_data ctx) data (ucast len :: word32)
      in \<lparr>ret_val = (if r \<noteq> 0 then 0 else 1),
          ctx_after = ctx\<lparr>md_data := s\<rparr>,
          engine_calls = [Call_wc_Sha256Update (md_data ctx) data (ucast len :: word32)]\<rparr>)"

definition direct_we_sha256_final ::
  "'s wc_sha256_engine \<Rightarrow> 's EVP_MD_CTX \<Rightarrow> ('s EVP_MD_CTX, 's wc_sha256_call) final_outcome" where
  "direct_we_sha256_final se ctx =
     (let (r, s, md) = wc_Sha256Final se (md_data ctx)
      in \<lparr>ret_val = (if r \<noteq> 0 then 0 else 1),
          ctx_after = ctx\<lparr>md_data := s\<rparr>,
          engine_calls = [Call_wc_Sha256Final (md_data ctx)],
          md_out = md\<rparr>)"

definition direct_we_sha256_cleanup ::
  "'s wc_sha256_engine \<Rightarrow> 's EVP_MD_CTX \<Rightarrow> ('s EVP_MD_CTX, 's wc_sha256_call) outcome" where
  "direct_we_sha256_cleanup se ctx =
     \<lparr>ret_val = 1,
      ctx_after = ctx\<lparr>md_data := wc_Sha256Free se (md_data ctx)\<rparr>,
      engine_calls = [Call_wc_Sha256Free (md_data ctx)]\<rparr>"

subsection \<open>The caller's protocol\<close>

text \<open>
  A digest computation is init, then update for each chunk (a pointer with a length),
  then final. The caller goes on only while a call returns 1; the digest is what final
  stored through \<^verbatim>\<open>md\<close> when every call returned 1, and \<open>None\<close> otherwise.
\<close>

fun run_updates ::
  "('c \<Rightarrow> byte list \<Rightarrow> size_t \<Rightarrow> fault + ('c, 'k) outcome) \<Rightarrow> 'c \<Rightarrow>
     (byte list \<times> size_t) list \<Rightarrow> fault + (int \<times> 'c)" where
  "run_updates upd c [] = Inr (1, c)"
| "run_updates upd c ((data, len) # rest) =
     (case upd c data len of
        Inl f \<Rightarrow> Inl f
      | Inr r \<Rightarrow>
          if ret_val r = 1 then run_updates upd (ctx_after r) rest
          else Inr (ret_val r, ctx_after r))"

definition evp_digest ::
  "('c \<Rightarrow> fault + ('c, 'k) outcome) \<Rightarrow>
   ('c \<Rightarrow> byte list \<Rightarrow> size_t \<Rightarrow> fault + ('c, 'k) outcome) \<Rightarrow>
   ('c \<Rightarrow> fault + ('c, 'k) final_outcome) \<Rightarrow>
   'c \<Rightarrow> (byte list \<times> size_t) list \<Rightarrow> fault + byte list option" where
  "evp_digest init upd fin c chunks =
     (case init c of
        Inl f \<Rightarrow> Inl f
      | Inr r0 \<Rightarrow>
          if ret_val r0 \<noteq> 1 then Inr None
          else
            (case run_updates upd (ctx_after r0) chunks of
               Inl f \<Rightarrow> Inl f
             | Inr (ok, c1) \<Rightarrow>
                 if ok \<noteq> 1 then Inr None
                 else
                   (case fin c1 of
                      Inl f \<Rightarrow> Inl f
                    | Inr r2 \<Rightarrow> if ret_val r2 = 1 then Inr (Some (md_out r2)) else Inr None)))"

text \<open>The calls a session receives after init, for statements about its whole life.\<close>

datatype session_op = Op_update "byte list" size_t | Op_final | Op_cleanup

fun session_step ::
  "build_config \<Rightarrow> 'h wc_engine \<Rightarrow> 'h we_Digest EVP_MD_CTX \<Rightarrow> session_op \<Rightarrow>
     fault + 'h we_Digest EVP_MD_CTX" where
  "session_step cfg eng ctx (Op_update data len) =
     map_sum id ctx_after (we_digest_update eng ctx data len)"
| "session_step cfg eng ctx Op_final = map_sum id ctx_after (we_digest_final eng ctx)"
| "session_step cfg eng ctx Op_cleanup = Inr (ctx_after (we_digest_cleanup cfg eng ctx))"

fun session_run ::
  "build_config \<Rightarrow> 'h wc_engine \<Rightarrow> 'h we_Digest EVP_MD_CTX \<Rightarrow> session_op list \<Rightarrow>
     fault + 'h we_Digest EVP_MD_CTX" where
  "session_run cfg eng ctx [] = Inr ctx"
| "session_run cfg eng ctx (op # ops) =
     (case session_step cfg eng ctx op of
        Inl f \<Rightarrow> Inl f
      | Inr ctx' \<Rightarrow> session_run cfg eng ctx' ops)"

subsection \<open>Constants of wolfSSL's headers\<close>

text \<open>
  \<^verbatim>\<open>digest.c\<close> registers these sizes and does not declare them. They are the digest
  lengths of the seven algorithms in bytes, as FIPS 180-4 and FIPS 202 fix them.
\<close>

definition WC_SHA256_DIGEST_SIZE :: int where "WC_SHA256_DIGEST_SIZE = 32"
definition WC_SHA384_DIGEST_SIZE :: int where "WC_SHA384_DIGEST_SIZE = 48"
definition WC_SHA512_DIGEST_SIZE :: int where "WC_SHA512_DIGEST_SIZE = 64"
definition WC_SHA3_224_DIGEST_SIZE :: int where "WC_SHA3_224_DIGEST_SIZE = 28"
definition WC_SHA3_256_DIGEST_SIZE :: int where "WC_SHA3_256_DIGEST_SIZE = 32"
definition WC_SHA3_384_DIGEST_SIZE :: int where "WC_SHA3_384_DIGEST_SIZE = 48"
definition WC_SHA3_512_DIGEST_SIZE :: int where "WC_SHA3_512_DIGEST_SIZE = 64"

subsection \<open>Engines to run the adapter on\<close>

text \<open>The size each tag goes with, for the engines below.\<close>

fun digest_size_table :: "wc_HashType \<Rightarrow> int" where
  "digest_size_table WC_HASH_TYPE_NONE = 0"
| "digest_size_table WC_HASH_TYPE_SHA256 = WC_SHA256_DIGEST_SIZE"
| "digest_size_table WC_HASH_TYPE_SHA384 = WC_SHA384_DIGEST_SIZE"
| "digest_size_table WC_HASH_TYPE_SHA512 = WC_SHA512_DIGEST_SIZE"
| "digest_size_table WC_HASH_TYPE_SHA3_224 = WC_SHA3_224_DIGEST_SIZE"
| "digest_size_table WC_HASH_TYPE_SHA3_256 = WC_SHA3_256_DIGEST_SIZE"
| "digest_size_table WC_HASH_TYPE_SHA3_384 = WC_SHA3_384_DIGEST_SIZE"
| "digest_size_table WC_HASH_TYPE_SHA3_512 = WC_SHA3_512_DIGEST_SIZE"

text \<open>
  The engine whose update is concatenation: the handle is the byte sequence fed so far,
  an update appends the first \<open>n\<close> bytes at the pointer, final applies a digest
  function \<open>H\<close> of the algorithm and the bytes fed, and no call fails.
\<close>

definition concat_engine :: "(wc_HashType \<Rightarrow> byte list \<Rightarrow> byte list) \<Rightarrow> byte list wc_engine" where
  "concat_engine H =
     \<lparr>wc_HashInit = (\<lambda>h t. (0, [])),
      wc_HashUpdate = (\<lambda>h t data n. (0, h @ take (unat n) data)),
      wc_HashFinal = (\<lambda>h t. (0, h, H t h)),
      wc_HashFree = (\<lambda>h t. (0, h)),
      wc_HashGetDigestSize = digest_size_table\<rparr>"

definition concat_sha256_engine :: "(byte list \<Rightarrow> byte list) \<Rightarrow> byte list wc_sha256_engine" where
  "concat_sha256_engine H256 =
     \<lparr>wc_InitSha256 = (\<lambda>s. (0, Some [])),
      wc_Sha256Update = (\<lambda>s data n. (0, map_option (\<lambda>h. h @ take (unat n) data) s)),
      wc_Sha256Final = (\<lambda>s. (0, s, (case s of None \<Rightarrow> [] | Some h \<Rightarrow> H256 h))),
      wc_Sha256Free = (\<lambda>s. s)\<rparr>"

text \<open>Two digest functions for these engines: the bytes fed themselves, which tells any
  two inputs apart, and a block of zero bytes of the algorithm's digest size.\<close>

definition fed_bytes :: "wc_HashType \<Rightarrow> byte list \<Rightarrow> byte list" where
  "fed_bytes t bs = bs"

definition zero_digest :: "wc_HashType \<Rightarrow> byte list \<Rightarrow> byte list" where
  "zero_digest t bs = replicate (nat (digest_size_table t)) 0"

text \<open>The engine every call of which returns the status \<open>st\<close> and leaves the handle.\<close>

definition const_engine :: "int \<Rightarrow> 'h wc_engine" where
  "const_engine st =
     \<lparr>wc_HashInit = (\<lambda>h t. (st, h)),
      wc_HashUpdate = (\<lambda>h t data n. (st, h)),
      wc_HashFinal = (\<lambda>h t. (st, h, [])),
      wc_HashFree = (\<lambda>h t. (st, h)),
      wc_HashGetDigestSize = digest_size_table\<rparr>"

text \<open>
  What the statements about sizes and about the two paths ask of the engine.
  \<open>engine_digest_sizes\<close>: a successful \<^verbatim>\<open>wc_HashFinal\<close> stores \<^verbatim>\<open>wc_HashGetDigestSize(type)\<close> bytes, and that
  size is the header constant of the algorithm. \<open>sha256_engines_agree R\<close>: the SHA-256
  functions and the generic functions at \<open>WC_HASH_TYPE_SHA256\<close> simulate each other
  along \<open>R\<close>, a relation between what a \<^verbatim>\<open>wc_Sha256\<close> pointer holds and a
  \<^verbatim>\<open>wc_HashAlg\<close>.
\<close>

definition engine_digest_sizes :: "'h wc_engine \<Rightarrow> bool" where
  "engine_digest_sizes eng \<longleftrightarrow>
     (\<forall>h t. fst (wc_HashFinal eng h t) = 0 \<longrightarrow>
        int (length (snd (snd (wc_HashFinal eng h t)))) = wc_HashGetDigestSize eng t) \<and>
     wc_HashGetDigestSize eng WC_HASH_TYPE_SHA256 = WC_SHA256_DIGEST_SIZE \<and>
     wc_HashGetDigestSize eng WC_HASH_TYPE_SHA384 = WC_SHA384_DIGEST_SIZE \<and>
     wc_HashGetDigestSize eng WC_HASH_TYPE_SHA512 = WC_SHA512_DIGEST_SIZE \<and>
     wc_HashGetDigestSize eng WC_HASH_TYPE_SHA3_224 = WC_SHA3_224_DIGEST_SIZE \<and>
     wc_HashGetDigestSize eng WC_HASH_TYPE_SHA3_256 = WC_SHA3_256_DIGEST_SIZE \<and>
     wc_HashGetDigestSize eng WC_HASH_TYPE_SHA3_384 = WC_SHA3_384_DIGEST_SIZE \<and>
     wc_HashGetDigestSize eng WC_HASH_TYPE_SHA3_512 = WC_SHA3_512_DIGEST_SIZE"

definition sha256_engines_agree ::
  "('s option \<Rightarrow> 'h \<Rightarrow> bool) \<Rightarrow> 's wc_sha256_engine \<Rightarrow> 'h wc_engine \<Rightarrow> bool" where
  "sha256_engines_agree R se eng \<longleftrightarrow>
     (\<forall>s h.
        (fst (wc_InitSha256 se (Some s)) = 0) = (fst (wc_HashInit eng h WC_HASH_TYPE_SHA256) = 0) \<and>
        (fst (wc_InitSha256 se (Some s)) = 0 \<longrightarrow>
           R (snd (wc_InitSha256 se (Some s))) (snd (wc_HashInit eng h WC_HASH_TYPE_SHA256)))) \<and>
     (\<forall>s h data n. R s h \<longrightarrow>
        (fst (wc_Sha256Update se s data n) = 0) =
          (fst (wc_HashUpdate eng h WC_HASH_TYPE_SHA256 data n) = 0) \<and>
        (fst (wc_Sha256Update se s data n) = 0 \<longrightarrow>
           R (snd (wc_Sha256Update se s data n))
             (snd (wc_HashUpdate eng h WC_HASH_TYPE_SHA256 data n)))) \<and>
     (\<forall>s h. R s h \<longrightarrow>
        (fst (wc_Sha256Final se s) = 0) = (fst (wc_HashFinal eng h WC_HASH_TYPE_SHA256) = 0) \<and>
        (fst (wc_Sha256Final se s) = 0 \<longrightarrow>
           snd (snd (wc_Sha256Final se s)) = snd (snd (wc_HashFinal eng h WC_HASH_TYPE_SHA256))))"

subsection \<open>OpenSSL's digest-method registry\<close>

text \<open>
  A method descriptor \<^verbatim>\<open>EVP_MD\<close> holds the algorithm's identifier, the four function
  pointers, the result size and the size of the application data. Function pointers are
  the names of the functions they point to, one datatype for each signature;
  \<open>call_init\<close>, \<open>call_update\<close>, \<open>call_final\<close> and \<open>call_cleanup\<close> call through them.
  \<^verbatim>\<open>NID_*\<close>, \<^verbatim>\<open>EVP_PKEY_NONE\<close> and \<^verbatim>\<open>sizeof(we_Digest)\<close> are kept as names.
\<close>

datatype nid = NID_sha256 | NID_sha384 | NID_sha512
  | NID_sha3_224 | NID_sha3_256 | NID_sha3_384 | NID_sha3_512

datatype pkey_type = EVP_PKEY_NONE

datatype app_datasize = Sizeof_unset | Sizeof_we_Digest

datatype init_fn = Fn_we_sha256_init | Fn_we_sha384_init | Fn_we_sha512_init
  | Fn_we_sha3_224_init | Fn_we_sha3_256_init | Fn_we_sha3_384_init | Fn_we_sha3_512_init

datatype update_fn = Fn_we_digest_update

datatype final_fn = Fn_we_digest_final

datatype cleanup_fn = Fn_we_digest_cleanup

record EVP_MD =
  md_type :: nid
  md_pkey_type :: pkey_type
  md_init :: "init_fn option"
  md_update :: "update_fn option"
  md_final :: "final_fn option"
  md_cleanup :: "cleanup_fn option"
  md_result_size :: int
  md_app_datasize :: app_datasize

fun call_init ::
  "init_fn \<Rightarrow> 'h wc_engine \<Rightarrow> 'h we_Digest EVP_MD_CTX \<Rightarrow>
     fault + ('h we_Digest EVP_MD_CTX, 'h wc_call) outcome" where
  "call_init Fn_we_sha256_init = we_sha256_init"
| "call_init Fn_we_sha384_init = we_sha384_init"
| "call_init Fn_we_sha512_init = we_sha512_init"
| "call_init Fn_we_sha3_224_init = we_sha3_224_init"
| "call_init Fn_we_sha3_256_init = we_sha3_256_init"
| "call_init Fn_we_sha3_384_init = we_sha3_384_init"
| "call_init Fn_we_sha3_512_init = we_sha3_512_init"

fun call_update ::
  "update_fn \<Rightarrow> 'h wc_engine \<Rightarrow> 'h we_Digest EVP_MD_CTX \<Rightarrow> byte list \<Rightarrow> size_t \<Rightarrow>
     fault + ('h we_Digest EVP_MD_CTX, 'h wc_call) outcome" where
  "call_update Fn_we_digest_update = we_digest_update"

fun call_final ::
  "final_fn \<Rightarrow> 'h wc_engine \<Rightarrow> 'h we_Digest EVP_MD_CTX \<Rightarrow>
     fault + ('h we_Digest EVP_MD_CTX, 'h wc_call) final_outcome" where
  "call_final Fn_we_digest_final = we_digest_final"

fun call_cleanup ::
  "cleanup_fn \<Rightarrow> build_config \<Rightarrow> 'h wc_engine \<Rightarrow> 'h we_Digest EVP_MD_CTX \<Rightarrow>
     ('h we_Digest EVP_MD_CTX, 'h wc_call) outcome" where
  "call_cleanup Fn_we_digest_cleanup = we_digest_cleanup"

text \<open>
  Descriptors live in a heap, addressed by numbers; a pointer is an address or
  \<^verbatim>\<open>NULL\<close> (\<open>None\<close>), and an address the heap does not map is not allocated (never
  was, or was freed). What the calls into OpenSSL return is a parameter: the address
  \<^verbatim>\<open>EVP_MD_meth_new\<close> allocates at (\<open>None\<close> when it fails) and the return value of each
  setter. A setter that returns 1 has stored its argument in the descriptor; one that
  returns anything else has left the descriptor alone.
\<close>

type_synonym md_ptr = "nat option"
type_synonym md_heap = "nat \<rightharpoonup> EVP_MD"

record ossl =
  meth_new_result :: "nat option"
  set_init_result :: int
  set_update_result :: int
  set_final_result :: int
  set_cleanup_result :: int
  set_result_size_result :: int
  set_app_datasize_result :: int

definition md_store :: "md_heap \<Rightarrow> md_ptr \<Rightarrow> (EVP_MD \<Rightarrow> EVP_MD) \<Rightarrow> md_heap" where
  "md_store heap p f =
     (case p of
        None \<Rightarrow> heap
      | Some a \<Rightarrow> (case heap a of None \<Rightarrow> heap | Some m \<Rightarrow> heap(a \<mapsto> f m)))"

definition EVP_MD_meth_new :: "ossl \<Rightarrow> md_heap \<Rightarrow> nid \<Rightarrow> pkey_type \<Rightarrow> md_ptr \<times> md_heap" where
  "EVP_MD_meth_new os heap n pk =
     (case meth_new_result os of
        None \<Rightarrow> (None, heap)
      | Some a \<Rightarrow>
          (Some a,
           heap(a \<mapsto> \<lparr>md_type = n, md_pkey_type = pk, md_init = None, md_update = None,
                       md_final = None, md_cleanup = None, md_result_size = 0,
                       md_app_datasize = Sizeof_unset\<rparr>)))"

definition EVP_MD_meth_set_init :: "ossl \<Rightarrow> md_heap \<Rightarrow> md_ptr \<Rightarrow> init_fn \<Rightarrow> int \<times> md_heap" where
  "EVP_MD_meth_set_init os heap p f =
     (if set_init_result os = 1 then (1, md_store heap p (\<lambda>m. m\<lparr>md_init := Some f\<rparr>))
      else (set_init_result os, heap))"

definition EVP_MD_meth_set_update :: "ossl \<Rightarrow> md_heap \<Rightarrow> md_ptr \<Rightarrow> update_fn \<Rightarrow> int \<times> md_heap" where
  "EVP_MD_meth_set_update os heap p f =
     (if set_update_result os = 1 then (1, md_store heap p (\<lambda>m. m\<lparr>md_update := Some f\<rparr>))
      else (set_update_result os, heap))"

definition EVP_MD_meth_set_final :: "ossl \<Rightarrow> md_heap \<Rightarrow> md_ptr \<Rightarrow> final_fn \<Rightarrow> int \<times> md_heap" where
  "EVP_MD_meth_set_final os heap p f =
     (if set_final_result os = 1 then (1, md_store heap p (\<lambda>m. m\<lparr>md_final := Some f\<rparr>))
      else (set_final_result os, heap))"

definition EVP_MD_meth_set_cleanup :: "ossl \<Rightarrow> md_heap \<Rightarrow> md_ptr \<Rightarrow> cleanup_fn \<Rightarrow> int \<times> md_heap" where
  "EVP_MD_meth_set_cleanup os heap p f =
     (if set_cleanup_result os = 1 then (1, md_store heap p (\<lambda>m. m\<lparr>md_cleanup := Some f\<rparr>))
      else (set_cleanup_result os, heap))"

definition EVP_MD_meth_set_result_size :: "ossl \<Rightarrow> md_heap \<Rightarrow> md_ptr \<Rightarrow> int \<Rightarrow> int \<times> md_heap" where
  "EVP_MD_meth_set_result_size os heap p n =
     (if set_result_size_result os = 1 then (1, md_store heap p (\<lambda>m. m\<lparr>md_result_size := n\<rparr>))
      else (set_result_size_result os, heap))"

definition EVP_MD_meth_set_app_datasize ::
  "ossl \<Rightarrow> md_heap \<Rightarrow> md_ptr \<Rightarrow> app_datasize \<Rightarrow> int \<times> md_heap" where
  "EVP_MD_meth_set_app_datasize os heap p n =
     (if set_app_datasize_result os = 1 then (1, md_store heap p (\<lambda>m. m\<lparr>md_app_datasize := n\<rparr>))
      else (set_app_datasize_result os, heap))"

definition EVP_MD_meth_free :: "md_heap \<Rightarrow> md_ptr \<Rightarrow> md_heap" where
  "EVP_MD_meth_free heap p = (case p of None \<Rightarrow> heap | Some a \<Rightarrow> heap(a := None))"

subsection \<open>Building the descriptors\<close>

text \<open>
  \<^verbatim>\<open>we_init_digest_meth\<close> binds update, final, cleanup and the application data size,
  each only while the step before returned 1. Its block for OpenSSL before 1.1.0 with
  \<^verbatim>\<open>WE_HAVE_EVP_PKEY\<close> (it copies the key types into the descriptor after all four
  steps returned 1) is not part of this build.
\<close>

definition we_init_digest_meth :: "ossl \<Rightarrow> md_heap \<Rightarrow> md_ptr \<Rightarrow> int \<times> md_heap" where
  "we_init_digest_meth os heap method =
     (let (ret, heap) = EVP_MD_meth_set_update os heap method Fn_we_digest_update;
          (ret, heap) = (if ret = 1 then EVP_MD_meth_set_final os heap method Fn_we_digest_final
                         else (ret, heap));
          (ret, heap) = (if ret = 1 then EVP_MD_meth_set_cleanup os heap method Fn_we_digest_cleanup
                         else (ret, heap));
          (ret, heap) = (if ret = 1 then EVP_MD_meth_set_app_datasize os heap method Sizeof_we_Digest
                         else (ret, heap))
      in (ret, heap))"

text \<open>The seven global descriptor pointers (each starts as \<^verbatim>\<open>NULL\<close>) and the heap.\<close>

record we_state =
  we_sha256_md :: md_ptr
  we_sha384_md :: md_ptr
  we_sha512_md :: md_ptr
  we_sha3_224_md :: md_ptr
  we_sha3_256_md :: md_ptr
  we_sha3_384_md :: md_ptr
  we_sha3_512_md :: md_ptr
  md_heap :: md_heap

definition we_init_sha256_meth :: "ossl \<Rightarrow> we_state \<Rightarrow> int \<times> we_state" where
  "we_init_sha256_meth os st =
     (let (p, heap) = EVP_MD_meth_new os (md_heap st) NID_sha256 EVP_PKEY_NONE;
          st = st\<lparr>we_sha256_md := p, md_heap := heap\<rparr>;
          ret = (if we_sha256_md st \<noteq> None then 1 else 0);
          (ret, heap) = (if ret = 1
                         then EVP_MD_meth_set_init os (md_heap st) (we_sha256_md st) Fn_we_sha256_init
                         else (ret, md_heap st));
          (ret, heap) = (if ret = 1
                         then EVP_MD_meth_set_result_size os heap (we_sha256_md st) WC_SHA256_DIGEST_SIZE
                         else (ret, heap));
          (ret, heap) = (if ret = 1 then we_init_digest_meth os heap (we_sha256_md st)
                         else (ret, heap));
          heap = (if ret \<noteq> 1 \<and> we_sha256_md st \<noteq> None
                  then EVP_MD_meth_free heap (we_sha256_md st) else heap)
      in (ret, st\<lparr>md_heap := heap\<rparr>))"

definition we_init_sha384_meth :: "ossl \<Rightarrow> we_state \<Rightarrow> int \<times> we_state" where
  "we_init_sha384_meth os st =
     (let (p, heap) = EVP_MD_meth_new os (md_heap st) NID_sha384 EVP_PKEY_NONE;
          st = st\<lparr>we_sha384_md := p, md_heap := heap\<rparr>;
          ret = (if we_sha384_md st \<noteq> None then 1 else 0);
          (ret, heap) = (if ret = 1
                         then EVP_MD_meth_set_init os (md_heap st) (we_sha384_md st) Fn_we_sha384_init
                         else (ret, md_heap st));
          (ret, heap) = (if ret = 1
                         then EVP_MD_meth_set_result_size os heap (we_sha384_md st) WC_SHA384_DIGEST_SIZE
                         else (ret, heap));
          (ret, heap) = (if ret = 1 then we_init_digest_meth os heap (we_sha384_md st)
                         else (ret, heap));
          heap = (if ret \<noteq> 1 \<and> we_sha384_md st \<noteq> None
                  then EVP_MD_meth_free heap (we_sha384_md st) else heap)
      in (ret, st\<lparr>md_heap := heap\<rparr>))"

definition we_init_sha512_meth :: "ossl \<Rightarrow> we_state \<Rightarrow> int \<times> we_state" where
  "we_init_sha512_meth os st =
     (let (p, heap) = EVP_MD_meth_new os (md_heap st) NID_sha512 EVP_PKEY_NONE;
          st = st\<lparr>we_sha512_md := p, md_heap := heap\<rparr>;
          ret = (if we_sha512_md st \<noteq> None then 1 else 0);
          (ret, heap) = (if ret = 1
                         then EVP_MD_meth_set_init os (md_heap st) (we_sha512_md st) Fn_we_sha512_init
                         else (ret, md_heap st));
          (ret, heap) = (if ret = 1
                         then EVP_MD_meth_set_result_size os heap (we_sha512_md st) WC_SHA512_DIGEST_SIZE
                         else (ret, heap));
          (ret, heap) = (if ret = 1 then we_init_digest_meth os heap (we_sha512_md st)
                         else (ret, heap));
          heap = (if ret \<noteq> 1 \<and> we_sha512_md st \<noteq> None
                  then EVP_MD_meth_free heap (we_sha512_md st) else heap)
      in (ret, st\<lparr>md_heap := heap\<rparr>))"

definition we_init_sha3_224_meth :: "ossl \<Rightarrow> we_state \<Rightarrow> int \<times> we_state" where
  "we_init_sha3_224_meth os st =
     (let (p, heap) = EVP_MD_meth_new os (md_heap st) NID_sha3_224 EVP_PKEY_NONE;
          st = st\<lparr>we_sha3_224_md := p, md_heap := heap\<rparr>;
          ret = (if we_sha3_224_md st \<noteq> None then 1 else 0);
          (ret, heap) = (if ret = 1
                         then EVP_MD_meth_set_init os (md_heap st) (we_sha3_224_md st) Fn_we_sha3_224_init
                         else (ret, md_heap st));
          (ret, heap) = (if ret = 1
                         then EVP_MD_meth_set_result_size os heap (we_sha3_224_md st) WC_SHA3_224_DIGEST_SIZE
                         else (ret, heap));
          (ret, heap) = (if ret = 1 then we_init_digest_meth os heap (we_sha3_224_md st)
                         else (ret, heap));
          heap = (if ret \<noteq> 1 \<and> we_sha3_224_md st \<noteq> None
                  then EVP_MD_meth_free heap (we_sha3_224_md st) else heap)
      in (ret, st\<lparr>md_heap := heap\<rparr>))"

definition we_init_sha3_256_meth :: "ossl \<Rightarrow> we_state \<Rightarrow> int \<times> we_state" where
  "we_init_sha3_256_meth os st =
     (let (p, heap) = EVP_MD_meth_new os (md_heap st) NID_sha3_256 EVP_PKEY_NONE;
          st = st\<lparr>we_sha3_256_md := p, md_heap := heap\<rparr>;
          ret = (if we_sha3_256_md st \<noteq> None then 1 else 0);
          (ret, heap) = (if ret = 1
                         then EVP_MD_meth_set_init os (md_heap st) (we_sha3_256_md st) Fn_we_sha3_256_init
                         else (ret, md_heap st));
          (ret, heap) = (if ret = 1
                         then EVP_MD_meth_set_result_size os heap (we_sha3_256_md st) WC_SHA3_256_DIGEST_SIZE
                         else (ret, heap));
          (ret, heap) = (if ret = 1 then we_init_digest_meth os heap (we_sha3_256_md st)
                         else (ret, heap));
          heap = (if ret \<noteq> 1 \<and> we_sha3_256_md st \<noteq> None
                  then EVP_MD_meth_free heap (we_sha3_256_md st) else heap)
      in (ret, st\<lparr>md_heap := heap\<rparr>))"

definition we_init_sha3_384_meth :: "ossl \<Rightarrow> we_state \<Rightarrow> int \<times> we_state" where
  "we_init_sha3_384_meth os st =
     (let (p, heap) = EVP_MD_meth_new os (md_heap st) NID_sha3_384 EVP_PKEY_NONE;
          st = st\<lparr>we_sha3_384_md := p, md_heap := heap\<rparr>;
          ret = (if we_sha3_384_md st \<noteq> None then 1 else 0);
          (ret, heap) = (if ret = 1
                         then EVP_MD_meth_set_init os (md_heap st) (we_sha3_384_md st) Fn_we_sha3_384_init
                         else (ret, md_heap st));
          (ret, heap) = (if ret = 1
                         then EVP_MD_meth_set_result_size os heap (we_sha3_384_md st) WC_SHA3_384_DIGEST_SIZE
                         else (ret, heap));
          (ret, heap) = (if ret = 1 then we_init_digest_meth os heap (we_sha3_384_md st)
                         else (ret, heap));
          heap = (if ret \<noteq> 1 \<and> we_sha3_384_md st \<noteq> None
                  then EVP_MD_meth_free heap (we_sha3_384_md st) else heap)
      in (ret, st\<lparr>md_heap := heap\<rparr>))"

definition we_init_sha3_512_meth :: "ossl \<Rightarrow> we_state \<Rightarrow> int \<times> we_state" where
  "we_init_sha3_512_meth os st =
     (let (p, heap) = EVP_MD_meth_new os (md_heap st) NID_sha3_512 EVP_PKEY_NONE;
          st = st\<lparr>we_sha3_512_md := p, md_heap := heap\<rparr>;
          ret = (if we_sha3_512_md st \<noteq> None then 1 else 0);
          (ret, heap) = (if ret = 1
                         then EVP_MD_meth_set_init os (md_heap st) (we_sha3_512_md st) Fn_we_sha3_512_init
                         else (ret, md_heap st));
          (ret, heap) = (if ret = 1
                         then EVP_MD_meth_set_result_size os heap (we_sha3_512_md st) WC_SHA3_512_DIGEST_SIZE
                         else (ret, heap));
          (ret, heap) = (if ret = 1 then we_init_digest_meth os heap (we_sha3_512_md st)
                         else (ret, heap));
          heap = (if ret \<noteq> 1 \<and> we_sha3_512_md st \<noteq> None
                  then EVP_MD_meth_free heap (we_sha3_512_md st) else heap)
      in (ret, st\<lparr>md_heap := heap\<rparr>))"

text \<open>The registry: each algorithm's registration function with its global pointer.\<close>

definition digest_methods ::
  "((ossl \<Rightarrow> we_state \<Rightarrow> int \<times> we_state) \<times> (we_state \<Rightarrow> md_ptr)) list" where
  "digest_methods =
     [(we_init_sha256_meth, we_sha256_md),
      (we_init_sha384_meth, we_sha384_md),
      (we_init_sha512_meth, we_sha512_md),
      (we_init_sha3_224_meth, we_sha3_224_md),
      (we_init_sha3_256_meth, we_sha3_256_md),
      (we_init_sha3_384_meth, we_sha3_384_md),
      (we_init_sha3_512_meth, we_sha3_512_md)]"

subsection \<open>Vocabulary of the statements\<close>

text \<open>The status the engine gives a recorded call.\<close>

fun call_status :: "'h wc_engine \<Rightarrow> 'h wc_call \<Rightarrow> int" where
  "call_status eng (Call_wc_HashInit h t) = fst (wc_HashInit eng h t)"
| "call_status eng (Call_wc_HashUpdate h t data n) = fst (wc_HashUpdate eng h t data n)"
| "call_status eng (Call_wc_HashFinal h t) = fst (wc_HashFinal eng h t)"
| "call_status eng (Call_wc_HashFree h t) = fst (wc_HashFree eng h t)"

text \<open>The handle as the engine leaves it after a recorded call.\<close>

fun call_handle :: "'h wc_engine \<Rightarrow> 'h wc_call \<Rightarrow> 'h" where
  "call_handle eng (Call_wc_HashInit h t) = snd (wc_HashInit eng h t)"
| "call_handle eng (Call_wc_HashUpdate h t data n) = snd (wc_HashUpdate eng h t data n)"
| "call_handle eng (Call_wc_HashFinal h t) = fst (snd (wc_HashFinal eng h t))"
| "call_handle eng (Call_wc_HashFree h t) = snd (wc_HashFree eng h t)"

text \<open>An outcome on the session \<open>d\<close> is the work of the one engine call \<open>c\<close>: \<open>c\<close> is
  the only call made, the return value is 1 or 0 as the status of \<open>c\<close> is 0 or not,
  and the session afterwards is \<open>d\<close> with the handle as \<open>c\<close> left it.\<close>

definition dispatched ::
  "'h wc_engine \<Rightarrow> 'h we_Digest \<Rightarrow> 'h wc_call \<Rightarrow>
   ('h we_Digest EVP_MD_CTX, 'h wc_call, 'z) outcome_scheme \<Rightarrow> bool" where
  "dispatched eng d c r \<longleftrightarrow>
     engine_calls r = [c] \<and>
     ret_val r = (if call_status eng c = 0 then 1 else 0) \<and>
     ctx_after r = \<lparr>md_data = Some (d\<lparr>hash := call_handle eng c\<rparr>)\<rparr>"

text \<open>An outcome propagates the engine's status: one engine call was made, and the
  return value is 1 exactly when its status is 0 and 0 exactly when it is not.\<close>

definition propagated :: "'h wc_engine \<Rightarrow> ('c, 'h wc_call, 'z) outcome_scheme \<Rightarrow> bool" where
  "propagated eng r \<longleftrightarrow>
     (case engine_calls r of
        [c] \<Rightarrow> (ret_val r = 1) = (call_status eng c = 0) \<and>
               (ret_val r = 0) = (call_status eng c \<noteq> 0)
      | _ \<Rightarrow> False)"

text \<open>An initialiser binds a tag: on a session \<open>d\<close> it does not fault, its one engine
  call is \<^verbatim>\<open>wc_HashInit\<close> on the session's handle with that tag, its return value
  is that call's status turned into 0 or 1, and the session holds the tag afterwards.\<close>

definition init_binds ::
  "('h wc_engine \<Rightarrow> 'h we_Digest EVP_MD_CTX \<Rightarrow>
      fault + ('h we_Digest EVP_MD_CTX, 'h wc_call) outcome) \<Rightarrow>
   wc_HashType \<Rightarrow> 'h wc_engine \<Rightarrow> 'h we_Digest \<Rightarrow> bool" where
  "init_binds init tag eng d \<longleftrightarrow>
     (case init eng \<lparr>md_data = Some d\<rparr> of
        Inl e \<Rightarrow> False
      | Inr r \<Rightarrow>
          engine_calls r = [Call_wc_HashInit (hash d) tag] \<and>
          ret_val r = (if fst (wc_HashInit eng (hash d) tag) \<noteq> 0 then 0 else 1) \<and>
          map_option hashType (md_data (ctx_after r)) = Some tag)"

text \<open>The tag each initialiser assigns, by the function's name.\<close>

fun init_tag :: "init_fn \<Rightarrow> wc_HashType" where
  "init_tag Fn_we_sha256_init = WC_HASH_TYPE_SHA256"
| "init_tag Fn_we_sha384_init = WC_HASH_TYPE_SHA384"
| "init_tag Fn_we_sha512_init = WC_HASH_TYPE_SHA512"
| "init_tag Fn_we_sha3_224_init = WC_HASH_TYPE_SHA3_224"
| "init_tag Fn_we_sha3_256_init = WC_HASH_TYPE_SHA3_256"
| "init_tag Fn_we_sha3_384_init = WC_HASH_TYPE_SHA3_384"
| "init_tag Fn_we_sha3_512_init = WC_HASH_TYPE_SHA3_512"

text \<open>An engine whose initialiser and updates succeed and whose release fails.\<close>

definition release_failing_engine :: "int \<Rightarrow> 'h wc_engine" where
  "release_failing_engine st = (const_engine 0)\<lparr>wc_HashFree := \<lambda>h t. (st, h)\<rparr>"

text \<open>The descriptor a registration that went through leaves in the heap.\<close>

definition built :: "nid \<Rightarrow> init_fn \<Rightarrow> int \<Rightarrow> EVP_MD" where
  "built n f sz =
     \<lparr>md_type = n, md_pkey_type = EVP_PKEY_NONE, md_init = Some f,
      md_update = Some Fn_we_digest_update, md_final = Some Fn_we_digest_final,
      md_cleanup = Some Fn_we_digest_cleanup, md_result_size = sz,
      md_app_datasize = Sizeof_we_Digest\<rparr>"

text \<open>The state at program start (every global is \<^verbatim>\<open>NULL\<close>, nothing allocated), and
  an OpenSSL that allocates at address 0 and whose setters all return 1.\<close>

definition st_start :: we_state where
  "st_start =
     \<lparr>we_sha256_md = None, we_sha384_md = None, we_sha512_md = None,
      we_sha3_224_md = None, we_sha3_256_md = None, we_sha3_384_md = None,
      we_sha3_512_md = None, md_heap = Map.empty\<rparr>"

definition os_ok :: ossl where
  "os_ok =
     \<lparr>meth_new_result = Some 0, set_init_result = 1, set_update_result = 1,
      set_final_result = 1, set_cleanup_result = 1, set_result_size_result = 1,
      set_app_datasize_result = 1\<rparr>"


lemmas setter_defs =
  EVP_MD_meth_set_init_def EVP_MD_meth_set_update_def EVP_MD_meth_set_final_def
  EVP_MD_meth_set_cleanup_def EVP_MD_meth_set_result_size_def EVP_MD_meth_set_app_datasize_def

lemmas digest_size_defs =
  WC_SHA256_DIGEST_SIZE_def WC_SHA384_DIGEST_SIZE_def WC_SHA512_DIGEST_SIZE_def
  WC_SHA3_224_DIGEST_SIZE_def WC_SHA3_256_DIGEST_SIZE_def WC_SHA3_384_DIGEST_SIZE_def
  WC_SHA3_512_DIGEST_SIZE_def

lemmas generic_init_defs =
  we_sha256_init_def we_sha384_init_def we_sha512_init_def we_sha3_224_init_def
  we_sha3_256_init_def we_sha3_384_init_def we_sha3_512_init_def

section \<open>Dispatch on the stored tag\<close>

text \<open>
  Claim C1, as amended. On a session \<open>d\<close> (application data present), whatever its
  tag: update is the work of one engine call, \<^verbatim>\<open>wc_HashUpdate\<close> on the session's
  handle with the session's stored \<open>hashType\<close>, the data pointer and the length narrowed
  to 32 bits; final is the work of one engine call, \<^verbatim>\<open>wc_HashFinal\<close> with the stored
  \<open>hashType\<close>, and hands on the bytes that call stored; cleanup is the work of one
  engine call, \<^verbatim>\<open>wc_HashFree\<close> with the stored \<open>hashType\<close>, in a build where
  \<^verbatim>\<open>HAVE_FIPS_VERSION\<close> is undefined or at least 2, and in a build where it is below 2
  cleanup makes no engine call, returns 1 and leaves the session as it is. The tag
  enters each function only as the argument of that call.
\<close>

theorem dispatch_by_stored_hashType:
  "(case we_digest_update eng \<lparr>md_data = Some d\<rparr> data len of
      Inl e \<Rightarrow> False
    | Inr r \<Rightarrow>
        dispatched eng d (Call_wc_HashUpdate (hash d) (hashType d) data (ucast len)) r) \<and>
   (case we_digest_final eng \<lparr>md_data = Some d\<rparr> of
      Inl e \<Rightarrow> False
    | Inr r \<Rightarrow>
        dispatched eng d (Call_wc_HashFinal (hash d) (hashType d)) r \<and>
        md_out r = snd (snd (wc_HashFinal eng (hash d) (hashType d)))) \<and>
   (if hash_free_compiled cfg
    then dispatched eng d (Call_wc_HashFree (hash d) (hashType d))
           (we_digest_cleanup cfg eng \<lparr>md_data = Some d\<rparr>)
    else we_digest_cleanup cfg eng \<lparr>md_data = Some d\<rparr> =
           \<lparr>ret_val = 1, ctx_after = \<lparr>md_data = Some d\<rparr>, engine_calls = []\<rparr>)"
  by (simp add: we_digest_update_def we_digest_final_def we_digest_cleanup_def dispatched_def
      split: prod.splits)

text \<open>
  Claim C1 as stated fails for cleanup: with \<^verbatim>\<open>HAVE_FIPS_VERSION\<close> defined as 1, a
  session that \<^verbatim>\<open>we_sha256_init\<close> has just made ready (return value 1) is cleaned up
  without any engine call, so \<^verbatim>\<open>wc_HashFree\<close> is not invoked.
\<close>

theorem cleanup_fips_v1_calls_no_engine:
  "(case we_sha256_init (const_engine 0)
           \<lparr>md_data = Some \<lparr>hash = (), hashType = WC_HASH_TYPE_NONE\<rparr>\<rparr> of
      Inl e \<Rightarrow> False
    | Inr r \<Rightarrow>
        ret_val r = 1 \<and>
        engine_calls (we_digest_cleanup (Some 1) (const_engine 0) (ctx_after r)) = [])"
  by (simp add: we_sha256_init_def we_digest_cleanup_def const_engine_def hash_free_compiled_def)

section \<open>What cleanup returns\<close>

text \<open>
  Claim C4, as amended. The generic cleanup returns 1 when the build has
  \<^verbatim>\<open>HAVE_FIPS_VERSION\<close> below 2 (no release call is compiled in), when the context has
  no application data, and when \<^verbatim>\<open>wc_HashFree\<close> returns 0; when \<^verbatim>\<open>wc_HashFree\<close>
  returns a nonzero status it returns 0, so the release failure reaches the caller. The
  fixed-function cleanup returns 1 always.
\<close>

theorem cleanup_return_value:
  "ret_val (we_digest_cleanup cfg eng ctx) =
     (if hash_free_compiled cfg then
        (case md_data ctx of
           None \<Rightarrow> 1
         | Some d \<Rightarrow> if fst (wc_HashFree eng (hash d) (hashType d)) = 0 then 1 else 0)
      else 1) \<and>
   ret_val (direct_we_sha256_cleanup se dctx) = 1"
  by (simp add: we_digest_cleanup_def direct_we_sha256_cleanup_def
      split: prod.splits option.splits)

text \<open>
  Claim C4 as stated fails: in the default build (\<^verbatim>\<open>HAVE_FIPS_VERSION\<close> undefined), on
  a session \<^verbatim>\<open>we_sha256_init\<close> has just made ready, a \<^verbatim>\<open>wc_HashFree\<close> that returns
  \<open>-1\<close> makes cleanup return 0.
\<close>

theorem cleanup_surfaces_release_failure:
  "(case we_sha256_init (release_failing_engine (- 1))
           \<lparr>md_data = Some \<lparr>hash = (), hashType = WC_HASH_TYPE_NONE\<rparr>\<rparr> of
      Inl e \<Rightarrow> False
    | Inr r \<Rightarrow>
        ret_val r = 1 \<and>
        ret_val (we_digest_cleanup None (release_failing_engine (- 1)) (ctx_after r)) = 0)"
  by (simp add: we_sha256_init_def we_digest_cleanup_def const_engine_def
      release_failing_engine_def hash_free_compiled_def)

section \<open>Propagation of the engine's status\<close>

text \<open>
  Claim C5. On a session, each of the seven initialisers (called through its function
  pointer), update and final makes exactly one engine call and returns 1 exactly when
  that call's status is 0 and 0 exactly when it is not: the failure is reported by the
  call that met it, and the engine is not called a second time.
\<close>

theorem engine_status_propagated:
  "(case call_init f eng \<lparr>md_data = Some d\<rparr> of
      Inl e \<Rightarrow> False | Inr r \<Rightarrow> propagated eng r) \<and>
   (case we_digest_update eng \<lparr>md_data = Some d\<rparr> data len of
      Inl e \<Rightarrow> False | Inr r \<Rightarrow> propagated eng r) \<and>
   (case we_digest_final eng \<lparr>md_data = Some d\<rparr> of
      Inl e \<Rightarrow> False | Inr r \<Rightarrow> propagated eng r)"
  by (cases f) (simp_all add: generic_init_defs we_digest_update_def we_digest_final_def
      propagated_def split: prod.splits)

section \<open>The tag is written by init alone\<close>

lemma session_step_keeps_tag:
  "\<exists>d'. session_step cfg eng \<lparr>md_data = Some d\<rparr> op = Inr \<lparr>md_data = Some d'\<rparr> \<and>
        hashType d' = hashType d"
  by (cases op) (auto simp add: we_digest_update_def we_digest_final_def we_digest_cleanup_def
      split: prod.splits)

text \<open>
  Claim C8. Whatever sequence of update, final and cleanup calls a session receives,
  in either build and with any engine (failing calls included), no call faults and the
  session's \<open>hashType\<close> at the end is the one it had at the start: only an initialiser
  writes the tag.
\<close>

theorem hashType_unchanged_after_init:
  "\<exists>d'. session_run cfg eng \<lparr>md_data = Some d\<rparr> ops = Inr \<lparr>md_data = Some d'\<rparr> \<and>
        hashType d' = hashType d"
proof (induction ops arbitrary: d)
  case Nil
  show ?case by simp
next
  case (Cons op ops)
  obtain d1 where s: "session_step cfg eng \<lparr>md_data = Some d\<rparr> op = Inr \<lparr>md_data = Some d1\<rparr>"
    and t: "hashType d1 = hashType d"
    using session_step_keeps_tag by blast
  from Cons.IH [of d1] obtain d' where
    "session_run cfg eng \<lparr>md_data = Some d1\<rparr> ops = Inr \<lparr>md_data = Some d'\<rparr>"
    "hashType d' = hashType d1"
    by blast
  with s t show ?case by simp
qed

section \<open>Init binds the tag before it calls the engine\<close>

text \<open>
  Claim C10. Each of the seven generic initialisers, on a session, calls
  \<^verbatim>\<open>wc_HashInit\<close> once with its own algorithm's tag (the value it has just stored in
  \<open>hashType\<close> and reads back for the call), and afterwards the session's \<open>hashType\<close> is
  that tag whatever status the engine returned, so also when the initialiser returns 0.
\<close>

theorem init_binds_tag_before_engine_call:
  "init_binds we_sha256_init WC_HASH_TYPE_SHA256 eng d \<and>
   init_binds we_sha384_init WC_HASH_TYPE_SHA384 eng d \<and>
   init_binds we_sha512_init WC_HASH_TYPE_SHA512 eng d \<and>
   init_binds we_sha3_224_init WC_HASH_TYPE_SHA3_224 eng d \<and>
   init_binds we_sha3_256_init WC_HASH_TYPE_SHA3_256 eng d \<and>
   init_binds we_sha3_384_init WC_HASH_TYPE_SHA3_384 eng d \<and>
   init_binds we_sha3_512_init WC_HASH_TYPE_SHA3_512 eng d"
  by (simp add: init_binds_def generic_init_defs split: prod.splits)

text \<open>
  Claim C10 at work on a failed init: the engine returns \<open>-173\<close> to every call, the
  session is fresh (tag \<open>WC_HASH_TYPE_NONE\<close>); \<^verbatim>\<open>we_sha256_init\<close> returns 0 and the
  session holds \<open>WC_HASH_TYPE_SHA256\<close>.
\<close>

theorem failed_init_has_bound_tag:
  "init_binds we_sha256_init WC_HASH_TYPE_SHA256 (const_engine (- 173))
     \<lparr>hash = (), hashType = WC_HASH_TYPE_NONE\<rparr> \<and>
   map_sum id (\<lambda>r. (ret_val r, ctx_after r))
     (we_sha256_init (const_engine (- 173))
        \<lparr>md_data = Some \<lparr>hash = (), hashType = WC_HASH_TYPE_NONE\<rparr>\<rparr>) =
     Inr (0, \<lparr>md_data = Some \<lparr>hash = (), hashType = WC_HASH_TYPE_SHA256\<rparr>\<rparr>)"
  using init_binds_tag_before_engine_call
    [of "const_engine (- 173)" "\<lparr>hash = (), hashType = WC_HASH_TYPE_NONE\<rparr>"]
  by (simp add: we_sha256_init_def const_engine_def)

section \<open>Chunking\<close>

lemma call_init_concat:
  "call_init f (concat_engine H) \<lparr>md_data = Some d\<rparr> =
     Inr \<lparr>ret_val = 1, ctx_after = \<lparr>md_data = Some \<lparr>hash = [], hashType = init_tag f\<rparr>\<rparr>,
          engine_calls = [Call_wc_HashInit (hash d) (init_tag f)]\<rparr>"
  by (cases f) (simp_all add: generic_init_defs concat_engine_def)

lemma we_digest_final_concat:
  "we_digest_final (concat_engine H) \<lparr>md_data = Some \<lparr>hash = h, hashType = t\<rparr>\<rparr> =
     Inr \<lparr>ret_val = 1, ctx_after = \<lparr>md_data = Some \<lparr>hash = h, hashType = t\<rparr>\<rparr>,
          engine_calls = [Call_wc_HashFinal h t], md_out = H t h\<rparr>"
  by (simp add: we_digest_final_def concat_engine_def)

text \<open>The narrowing \<^verbatim>\<open>(word32)len\<close> keeps a length below \<open>2^32\<close>.\<close>

lemma narrowed_length: "n < 2 ^ 32 \<Longrightarrow> unat (ucast (of_nat n :: size_t) :: word32) = n"
  by (simp add: unsigned_ucast_eq unat_of_nat take_bit_eq_mod)

lemma run_updates_concat:
  "\<forall>(data, len) \<in> set chunks. len = of_nat (length data) \<and> length data < 2 ^ 32 \<Longrightarrow>
   run_updates (we_digest_update (concat_engine H))
     \<lparr>md_data = Some \<lparr>hash = h, hashType = t\<rparr>\<rparr> chunks =
     Inr (1, \<lparr>md_data = Some \<lparr>hash = h @ concat (map fst chunks), hashType = t\<rparr>\<rparr>)"
proof (induction chunks arbitrary: h)
  case Nil
  show ?case by simp
next
  case (Cons c chunks)
  obtain data len where c: "c = (data, len)" by (cases c)
  with Cons.prems have l: "len = of_nat (length data)" "length data < 2 ^ 32" by auto
  have upd: "we_digest_update (concat_engine H) \<lparr>md_data = Some \<lparr>hash = h, hashType = t\<rparr>\<rparr> data len =
      Inr \<lparr>ret_val = 1, ctx_after = \<lparr>md_data = Some \<lparr>hash = h @ data, hashType = t\<rparr>\<rparr>,
           engine_calls = [Call_wc_HashUpdate h t data (ucast len)]\<rparr>"
    using l by (simp add: we_digest_update_def concat_engine_def narrowed_length)
  from Cons.prems
  have "\<forall>(data, len) \<in> set chunks. len = of_nat (length data) \<and> length data < 2 ^ 32"
    by simp
  from Cons.IH [OF this, of "h @ data"] show ?case
    by (simp add: c upd)
qed

text \<open>
  With the concatenating engine, a computation whose chunks are each shorter than
  \<open>2^32\<close> bytes yields the digest function applied to the concatenation of the chunks.
\<close>

lemma evp_digest_concat:
  assumes "\<forall>(data, len) \<in> set chunks. len = of_nat (length data) \<and> length data < 2 ^ 32"
  shows "evp_digest (call_init f (concat_engine H)) (we_digest_update (concat_engine H))
           (we_digest_final (concat_engine H)) \<lparr>md_data = Some d\<rparr> chunks =
         Inr (Some (H (init_tag f) (concat (map fst chunks))))"
  using run_updates_concat [OF assms, of H "[]" "init_tag f"]
  by (simp add: evp_digest_def call_init_concat we_digest_final_concat)

text \<open>
  Chunking invariance for inputs shorter than \<open>2^32\<close> bytes: for every initialiser,
  every digest function of the engine and every split point \<open>n\<close>, update on
  \<open>data[0:n]\<close> then on \<open>data[n:m]\<close> yields the digest of the single update on
  \<open>data[0:m]\<close>.
\<close>

lemma chunking_invariance_below_4GiB:
  assumes "length data < 2 ^ 32" "n \<le> length data"
  shows "evp_digest (call_init f (concat_engine H)) (we_digest_update (concat_engine H))
           (we_digest_final (concat_engine H)) \<lparr>md_data = Some d\<rparr>
           [(take n data, of_nat n), (drop n data, of_nat (length data - n))] =
         evp_digest (call_init f (concat_engine H)) (we_digest_update (concat_engine H))
           (we_digest_final (concat_engine H)) \<lparr>md_data = Some d\<rparr>
           [(data, of_nat (length data))]"
proof -
  have "\<forall>(dt, len) \<in> set [(take n data, of_nat n :: size_t),
                            (drop n data, of_nat (length data - n))].
          len = of_nat (length dt) \<and> length dt < 2 ^ 32"
    using assms by (auto simp add: min_def)
  moreover have "\<forall>(dt, len) \<in> set [(data, of_nat (length data) :: size_t)].
          len = of_nat (length dt) \<and> length dt < 2 ^ 32"
    using assms by simp
  ultimately show ?thesis
    by (simp only: evp_digest_concat) simp
qed

text \<open>
  Claim C2 fails on the code at \<open>m = 2^32\<close>, where \<^verbatim>\<open>size_t\<close> has 64 bits. The
  data is \<open>2^32\<close> zero bytes, the split point is \<open>n = 2^31\<close>, the engine concatenates;
  the initialiser \<open>f\<close> and the engine's digest function \<open>H\<close> are any. The two
  updates feed all \<open>2^32\<close> bytes and final yields their digest. The single update
  passes \<^verbatim>\<open>(word32)len\<close>, which is 0: the engine is fed nothing, the call still
  returns 1, and final yields the digest of the empty input.
\<close>

theorem chunking_fails_at_4GiB:
  "evp_digest (call_init f (concat_engine H)) (we_digest_update (concat_engine H))
     (we_digest_final (concat_engine H)) \<lparr>md_data = Some d\<rparr>
     [(take 2147483648 (replicate 4294967296 0), 2147483648),
      (drop 2147483648 (replicate 4294967296 0), 2147483648)] =
     Inr (Some (H (init_tag f) (replicate 4294967296 0))) \<and>
   evp_digest (call_init f (concat_engine H)) (we_digest_update (concat_engine H))
     (we_digest_final (concat_engine H)) \<lparr>md_data = Some d\<rparr>
     [(replicate 4294967296 0, 4294967296)] =
     Inr (Some (H (init_tag f) []))"
proof -
  have "\<forall>(data, len) \<in> set [(take 2147483648 (replicate 4294967296 (0 :: byte)),
                               2147483648 :: size_t),
                              (drop 2147483648 (replicate 4294967296 0), 2147483648)].
          len = of_nat (length data) \<and> length data < 2 ^ 32"
    by simp
  from evp_digest_concat [OF this, of f H d]
  have split: "evp_digest (call_init f (concat_engine H)) (we_digest_update (concat_engine H))
     (we_digest_final (concat_engine H)) \<lparr>md_data = Some d\<rparr>
     [(take 2147483648 (replicate 4294967296 0), 2147483648),
      (drop 2147483648 (replicate 4294967296 0), 2147483648)] =
     Inr (Some (H (init_tag f) (replicate 4294967296 0)))"
    by (simp add: replicate_add [symmetric])
  have upd: "we_digest_update (concat_engine H)
       \<lparr>md_data = Some \<lparr>hash = [], hashType = init_tag f\<rparr>\<rparr>
       (replicate 4294967296 0) 4294967296 =
     Inr \<lparr>ret_val = 1, ctx_after = \<lparr>md_data = Some \<lparr>hash = [], hashType = init_tag f\<rparr>\<rparr>,
          engine_calls = [Call_wc_HashUpdate [] (init_tag f) (replicate 4294967296 0) 0]\<rparr>"
    by (simp add: we_digest_update_def concat_engine_def)
  have whole: "evp_digest (call_init f (concat_engine H)) (we_digest_update (concat_engine H))
     (we_digest_final (concat_engine H)) \<lparr>md_data = Some d\<rparr>
     [(replicate 4294967296 0, 4294967296)] =
     Inr (Some (H (init_tag f) []))"
    by (simp add: evp_digest_def call_init_concat upd we_digest_final_concat)
  from split whole show ?thesis by simp
qed

text \<open>
  With SHA-256 and a digest function that tells inputs apart (the bytes fed themselves),
  the two runs of claim C2 at \<open>m = 2^32\<close>, \<open>n = 2^31\<close> yield different digests.
\<close>

theorem chunking_not_invariant_at_4GiB:
  "evp_digest (we_sha256_init (concat_engine fed_bytes))
     (we_digest_update (concat_engine fed_bytes)) (we_digest_final (concat_engine fed_bytes))
     \<lparr>md_data = Some \<lparr>hash = [], hashType = WC_HASH_TYPE_NONE\<rparr>\<rparr>
     [(take 2147483648 (replicate 4294967296 0), 2147483648),
      (drop 2147483648 (replicate 4294967296 0), 2147483648)] \<noteq>
   evp_digest (we_sha256_init (concat_engine fed_bytes))
     (we_digest_update (concat_engine fed_bytes)) (we_digest_final (concat_engine fed_bytes))
     \<lparr>md_data = Some \<lparr>hash = [], hashType = WC_HASH_TYPE_NONE\<rparr>\<rparr>
     [(replicate 4294967296 0, 4294967296)]"
  by (simp add: evp_digest_def we_sha256_init_def we_digest_update_def we_digest_final_def
      concat_engine_def fed_bytes_def replicate_add [symmetric])

section \<open>The fixed-function path against the generic path\<close>

lemma agree_init:
  assumes "sha256_engines_agree R se eng"
    and "wc_InitSha256 se (Some s) = (r1, s')"
    and "wc_HashInit eng h WC_HASH_TYPE_SHA256 = (r2, h')"
  shows "(r1 = 0) = (r2 = 0)" and "r1 = 0 \<Longrightarrow> R s' h'"
proof -
  from assms(1) have
    "(fst (wc_InitSha256 se (Some s)) = 0) = (fst (wc_HashInit eng h WC_HASH_TYPE_SHA256) = 0) \<and>
     (fst (wc_InitSha256 se (Some s)) = 0 \<longrightarrow>
        R (snd (wc_InitSha256 se (Some s))) (snd (wc_HashInit eng h WC_HASH_TYPE_SHA256)))"
    unfolding sha256_engines_agree_def by blast
  then show "(r1 = 0) = (r2 = 0)" and "r1 = 0 \<Longrightarrow> R s' h'"
    by (simp_all add: assms(2,3))
qed

lemma agree_update:
  assumes "sha256_engines_agree R se eng" and "R s h"
    and "wc_Sha256Update se s data n = (r1, s')"
    and "wc_HashUpdate eng h WC_HASH_TYPE_SHA256 data n = (r2, h')"
  shows "(r1 = 0) = (r2 = 0)" and "r1 = 0 \<Longrightarrow> R s' h'"
proof -
  from assms(1,2) have
    "(fst (wc_Sha256Update se s data n) = 0) =
       (fst (wc_HashUpdate eng h WC_HASH_TYPE_SHA256 data n) = 0) \<and>
     (fst (wc_Sha256Update se s data n) = 0 \<longrightarrow>
        R (snd (wc_Sha256Update se s data n))
          (snd (wc_HashUpdate eng h WC_HASH_TYPE_SHA256 data n)))"
    unfolding sha256_engines_agree_def by blast
  then show "(r1 = 0) = (r2 = 0)" and "r1 = 0 \<Longrightarrow> R s' h'"
    by (simp_all add: assms(3,4))
qed

lemma agree_final:
  assumes "sha256_engines_agree R se eng" and "R s h"
    and "wc_Sha256Final se s = (r1, s', md1)"
    and "wc_HashFinal eng h WC_HASH_TYPE_SHA256 = (r2, h', md2)"
  shows "(r1 = 0) = (r2 = 0)" and "r1 = 0 \<Longrightarrow> md1 = md2"
proof -
  from assms(1,2) have
    "(fst (wc_Sha256Final se s) = 0) = (fst (wc_HashFinal eng h WC_HASH_TYPE_SHA256) = 0) \<and>
     (fst (wc_Sha256Final se s) = 0 \<longrightarrow>
        snd (snd (wc_Sha256Final se s)) = snd (snd (wc_HashFinal eng h WC_HASH_TYPE_SHA256)))"
    unfolding sha256_engines_agree_def by blast
  then show "(r1 = 0) = (r2 = 0)" and "r1 = 0 \<Longrightarrow> md1 = md2"
    by (simp_all add: assms(3,4))
qed

text \<open>From related states, the updates and the final of the two paths end alike.\<close>

lemma updates_then_final_agree:
  assumes a: "sha256_engines_agree R se eng"
  shows "R s h \<Longrightarrow>
    (case run_updates (\<lambda>c data len. Inr (direct_we_sha256_update se c data len))
            \<lparr>md_data = s\<rparr> chunks of
       Inl f \<Rightarrow> Inl f
     | Inr (ok, c1) \<Rightarrow>
         if ok \<noteq> 1 then Inr None
         else (case Inr (direct_we_sha256_final se c1) of
                 Inl f \<Rightarrow> Inl f
               | Inr r2 \<Rightarrow> if ret_val r2 = 1 then Inr (Some (md_out r2)) else Inr None)) =
    (case run_updates (we_digest_update eng)
            \<lparr>md_data = Some \<lparr>hash = h, hashType = WC_HASH_TYPE_SHA256\<rparr>\<rparr> chunks of
       Inl f \<Rightarrow> Inl f
     | Inr (ok, c1) \<Rightarrow>
         if ok \<noteq> 1 then Inr None
         else (case we_digest_final eng c1 of
                 Inl f \<Rightarrow> Inl f
               | Inr r2 \<Rightarrow>
                   if ret_val r2 = 1 then Inr (Some (md_out r2))
                   else (Inr None :: fault + byte list option)))"
proof (induction chunks arbitrary: s h)
  case Nil
  obtain r1 s' md1 where f1: "wc_Sha256Final se s = (r1, s', md1)"
    by (cases "wc_Sha256Final se s")
  obtain r2 h' md2 where f2: "wc_HashFinal eng h WC_HASH_TYPE_SHA256 = (r2, h', md2)"
    by (cases "wc_HashFinal eng h WC_HASH_TYPE_SHA256")
  from agree_final [OF a Nil.prems f1 f2] show ?case
    by (auto simp add: direct_we_sha256_final_def we_digest_final_def f1 f2)
next
  case (Cons c chunks)
  obtain data len where c: "c = (data, len)" by (cases c)
  obtain r1 s' where u1: "wc_Sha256Update se s data (ucast len) = (r1, s')"
    by (cases "wc_Sha256Update se s data (ucast len)")
  obtain r2 h' where u2: "wc_HashUpdate eng h WC_HASH_TYPE_SHA256 data (ucast len) = (r2, h')"
    by (cases "wc_HashUpdate eng h WC_HASH_TYPE_SHA256 data (ucast len)")
  note ag = agree_update [OF a Cons.prems u1 u2]
  show ?case
  proof (cases "r1 = 0")
    case True
    with ag have "r2 = 0" "R s' h'" by simp_all
    with Cons.IH [of s' h'] True show ?thesis
      by (simp add: c direct_we_sha256_update_def we_digest_update_def u1 u2)
  next
    case False
    with ag have "r2 \<noteq> 0" by simp
    with False show ?thesis
      by (simp add: c direct_we_sha256_update_def we_digest_update_def u1 u2)
  qed
qed

text \<open>
  Claim C3. Let the engine's SHA-256 functions and its generic functions at
  \<open>WC_HASH_TYPE_SHA256\<close> agree (\<open>sha256_engines_agree\<close>: from related states they
  succeed together, stay related, and a successful final stores the same bytes). Then
  for every sequence of chunks, every starting content of the two sessions and every
  stale tag, the fixed-function computation (\<open>direct_we_sha256_init\<close>, \<open>_update\<close>,
  \<open>_final\<close>) and the generic one (\<open>we_sha256_init\<close>, \<open>we_digest_update\<close>,
  \<open>we_digest_final\<close>) give the same result: the same digest bytes, or both none.
\<close>

theorem direct_and_generic_sha256_agree:
  assumes a: "sha256_engines_agree R se eng"
  shows "evp_digest (\<lambda>c. Inr (direct_we_sha256_init se c))
           (\<lambda>c data len. Inr (direct_we_sha256_update se c data len))
           (\<lambda>c. Inr (direct_we_sha256_final se c)) \<lparr>md_data = Some s0\<rparr> chunks =
         evp_digest (we_sha256_init eng) (we_digest_update eng) (we_digest_final eng)
           \<lparr>md_data = Some \<lparr>hash = h0, hashType = t0\<rparr>\<rparr> chunks"
proof -
  obtain r1 s' where i1: "wc_InitSha256 se (Some s0) = (r1, s')"
    by (cases "wc_InitSha256 se (Some s0)")
  obtain r2 h' where i2: "wc_HashInit eng h0 WC_HASH_TYPE_SHA256 = (r2, h')"
    by (cases "wc_HashInit eng h0 WC_HASH_TYPE_SHA256")
  note ag = agree_init [OF a i1 i2]
  show ?thesis
  proof (cases "r1 = 0")
    case True
    with ag have "r2 = 0" "R s' h'" by simp_all
    with updates_then_final_agree [OF a \<open>R s' h'\<close>, of chunks] True show ?thesis
      by (simp add: evp_digest_def direct_we_sha256_init_def we_sha256_init_def i1 i2)
  next
    case False
    with ag have "r2 \<noteq> 0" by simp
    with False show ?thesis
      by (simp add: evp_digest_def direct_we_sha256_init_def we_sha256_init_def i1 i2)
  qed
qed

lemma concat_engines_agree:
  "sha256_engines_agree (\<lambda>s h. s = Some h)
     (concat_sha256_engine (H WC_HASH_TYPE_SHA256)) (concat_engine H)"
  by (simp add: sha256_engines_agree_def concat_sha256_engine_def concat_engine_def)

text \<open>Claim C3 at work: the concatenating engines agree, and the two computations on
  the chunks \<open>[1, 2, 3]\<close> and \<open>[4, 5]\<close> give the same result.\<close>

theorem direct_and_generic_sha256_agree_witness:
  "sha256_engines_agree (\<lambda>s h. s = Some h)
     (concat_sha256_engine (zero_digest WC_HASH_TYPE_SHA256)) (concat_engine zero_digest) \<and>
   evp_digest
     (\<lambda>c. Inr (direct_we_sha256_init (concat_sha256_engine (zero_digest WC_HASH_TYPE_SHA256)) c))
     (\<lambda>c data len.
        Inr (direct_we_sha256_update (concat_sha256_engine (zero_digest WC_HASH_TYPE_SHA256))
               c data len))
     (\<lambda>c. Inr (direct_we_sha256_final (concat_sha256_engine (zero_digest WC_HASH_TYPE_SHA256)) c))
     \<lparr>md_data = Some []\<rparr> [([1, 2, 3], 3), ([4, 5], 2)] =
   evp_digest (we_sha256_init (concat_engine zero_digest))
     (we_digest_update (concat_engine zero_digest)) (we_digest_final (concat_engine zero_digest))
     \<lparr>md_data = Some \<lparr>hash = [], hashType = WC_HASH_TYPE_NONE\<rparr>\<rparr>
     [([1, 2, 3], 3), ([4, 5], 2)]"
  using direct_and_generic_sha256_agree [OF concat_engines_agree,
      of zero_digest "[]" "[([1, 2, 3], 3), ([4, 5], 2)]" "[]" WC_HASH_TYPE_NONE]
    concat_engines_agree [of zero_digest]
  by simp

section \<open>The registered digest size\<close>

text \<open>What a registration that returns 1 has built: the global points to a descriptor
  with every field bound.\<close>

lemma we_init_digest_meth_built:
  assumes "we_init_digest_meth os heap (Some a) = (1, heap')" and "heap a = Some m"
  shows "heap' a = Some (m\<lparr>md_update := Some Fn_we_digest_update, md_final := Some Fn_we_digest_final,
                           md_cleanup := Some Fn_we_digest_cleanup, md_app_datasize := Sizeof_we_Digest\<rparr>)"
  using assms
  by (auto simp add: we_init_digest_meth_def setter_defs md_store_def split: if_splits)

lemma we_init_sha256_meth_built:
  assumes "we_init_sha256_meth os st = (1, st')"
  shows "\<exists>a. we_sha256_md st' = Some a \<and>
             md_heap st' a = Some (built NID_sha256 Fn_we_sha256_init WC_SHA256_DIGEST_SIZE)"
proof -
  from assms obtain a where a: "meth_new_result os = Some a"
    by (cases "meth_new_result os") (simp_all add: we_init_sha256_meth_def EVP_MD_meth_new_def)
  obtain r heap1 where d: "we_init_digest_meth os
      ((md_heap st)(a \<mapsto> \<lparr>md_type = NID_sha256, md_pkey_type = EVP_PKEY_NONE,
         md_init = Some Fn_we_sha256_init, md_update = None, md_final = None, md_cleanup = None,
         md_result_size = WC_SHA256_DIGEST_SIZE, md_app_datasize = Sizeof_unset\<rparr>))
      (Some a) = (r, heap1)"
    by (meson surj_pair)
  from assms a d have "r = 1" "we_sha256_md st' = Some a" "md_heap st' = heap1"
    by (auto simp add: we_init_sha256_meth_def EVP_MD_meth_new_def EVP_MD_meth_set_init_def
        EVP_MD_meth_set_result_size_def md_store_def Let_def split: if_splits)
  with we_init_digest_meth_built [OF d [unfolded \<open>r = 1\<close>]] show ?thesis
    by (simp add: built_def)
qed

lemma we_init_sha384_meth_built:
  assumes "we_init_sha384_meth os st = (1, st')"
  shows "\<exists>a. we_sha384_md st' = Some a \<and>
             md_heap st' a = Some (built NID_sha384 Fn_we_sha384_init WC_SHA384_DIGEST_SIZE)"
proof -
  from assms obtain a where a: "meth_new_result os = Some a"
    by (cases "meth_new_result os") (simp_all add: we_init_sha384_meth_def EVP_MD_meth_new_def)
  obtain r heap1 where d: "we_init_digest_meth os
      ((md_heap st)(a \<mapsto> \<lparr>md_type = NID_sha384, md_pkey_type = EVP_PKEY_NONE,
         md_init = Some Fn_we_sha384_init, md_update = None, md_final = None, md_cleanup = None,
         md_result_size = WC_SHA384_DIGEST_SIZE, md_app_datasize = Sizeof_unset\<rparr>))
      (Some a) = (r, heap1)"
    by (meson surj_pair)
  from assms a d have "r = 1" "we_sha384_md st' = Some a" "md_heap st' = heap1"
    by (auto simp add: we_init_sha384_meth_def EVP_MD_meth_new_def EVP_MD_meth_set_init_def
        EVP_MD_meth_set_result_size_def md_store_def Let_def split: if_splits)
  with we_init_digest_meth_built [OF d [unfolded \<open>r = 1\<close>]] show ?thesis
    by (simp add: built_def)
qed

lemma we_init_sha512_meth_built:
  assumes "we_init_sha512_meth os st = (1, st')"
  shows "\<exists>a. we_sha512_md st' = Some a \<and>
             md_heap st' a = Some (built NID_sha512 Fn_we_sha512_init WC_SHA512_DIGEST_SIZE)"
proof -
  from assms obtain a where a: "meth_new_result os = Some a"
    by (cases "meth_new_result os") (simp_all add: we_init_sha512_meth_def EVP_MD_meth_new_def)
  obtain r heap1 where d: "we_init_digest_meth os
      ((md_heap st)(a \<mapsto> \<lparr>md_type = NID_sha512, md_pkey_type = EVP_PKEY_NONE,
         md_init = Some Fn_we_sha512_init, md_update = None, md_final = None, md_cleanup = None,
         md_result_size = WC_SHA512_DIGEST_SIZE, md_app_datasize = Sizeof_unset\<rparr>))
      (Some a) = (r, heap1)"
    by (meson surj_pair)
  from assms a d have "r = 1" "we_sha512_md st' = Some a" "md_heap st' = heap1"
    by (auto simp add: we_init_sha512_meth_def EVP_MD_meth_new_def EVP_MD_meth_set_init_def
        EVP_MD_meth_set_result_size_def md_store_def Let_def split: if_splits)
  with we_init_digest_meth_built [OF d [unfolded \<open>r = 1\<close>]] show ?thesis
    by (simp add: built_def)
qed

lemma we_init_sha3_224_meth_built:
  assumes "we_init_sha3_224_meth os st = (1, st')"
  shows "\<exists>a. we_sha3_224_md st' = Some a \<and>
             md_heap st' a = Some (built NID_sha3_224 Fn_we_sha3_224_init WC_SHA3_224_DIGEST_SIZE)"
proof -
  from assms obtain a where a: "meth_new_result os = Some a"
    by (cases "meth_new_result os") (simp_all add: we_init_sha3_224_meth_def EVP_MD_meth_new_def)
  obtain r heap1 where d: "we_init_digest_meth os
      ((md_heap st)(a \<mapsto> \<lparr>md_type = NID_sha3_224, md_pkey_type = EVP_PKEY_NONE,
         md_init = Some Fn_we_sha3_224_init, md_update = None, md_final = None, md_cleanup = None,
         md_result_size = WC_SHA3_224_DIGEST_SIZE, md_app_datasize = Sizeof_unset\<rparr>))
      (Some a) = (r, heap1)"
    by (meson surj_pair)
  from assms a d have "r = 1" "we_sha3_224_md st' = Some a" "md_heap st' = heap1"
    by (auto simp add: we_init_sha3_224_meth_def EVP_MD_meth_new_def EVP_MD_meth_set_init_def
        EVP_MD_meth_set_result_size_def md_store_def Let_def split: if_splits)
  with we_init_digest_meth_built [OF d [unfolded \<open>r = 1\<close>]] show ?thesis
    by (simp add: built_def)
qed

lemma we_init_sha3_256_meth_built:
  assumes "we_init_sha3_256_meth os st = (1, st')"
  shows "\<exists>a. we_sha3_256_md st' = Some a \<and>
             md_heap st' a = Some (built NID_sha3_256 Fn_we_sha3_256_init WC_SHA3_256_DIGEST_SIZE)"
proof -
  from assms obtain a where a: "meth_new_result os = Some a"
    by (cases "meth_new_result os") (simp_all add: we_init_sha3_256_meth_def EVP_MD_meth_new_def)
  obtain r heap1 where d: "we_init_digest_meth os
      ((md_heap st)(a \<mapsto> \<lparr>md_type = NID_sha3_256, md_pkey_type = EVP_PKEY_NONE,
         md_init = Some Fn_we_sha3_256_init, md_update = None, md_final = None, md_cleanup = None,
         md_result_size = WC_SHA3_256_DIGEST_SIZE, md_app_datasize = Sizeof_unset\<rparr>))
      (Some a) = (r, heap1)"
    by (meson surj_pair)
  from assms a d have "r = 1" "we_sha3_256_md st' = Some a" "md_heap st' = heap1"
    by (auto simp add: we_init_sha3_256_meth_def EVP_MD_meth_new_def EVP_MD_meth_set_init_def
        EVP_MD_meth_set_result_size_def md_store_def Let_def split: if_splits)
  with we_init_digest_meth_built [OF d [unfolded \<open>r = 1\<close>]] show ?thesis
    by (simp add: built_def)
qed

lemma we_init_sha3_384_meth_built:
  assumes "we_init_sha3_384_meth os st = (1, st')"
  shows "\<exists>a. we_sha3_384_md st' = Some a \<and>
             md_heap st' a = Some (built NID_sha3_384 Fn_we_sha3_384_init WC_SHA3_384_DIGEST_SIZE)"
proof -
  from assms obtain a where a: "meth_new_result os = Some a"
    by (cases "meth_new_result os") (simp_all add: we_init_sha3_384_meth_def EVP_MD_meth_new_def)
  obtain r heap1 where d: "we_init_digest_meth os
      ((md_heap st)(a \<mapsto> \<lparr>md_type = NID_sha3_384, md_pkey_type = EVP_PKEY_NONE,
         md_init = Some Fn_we_sha3_384_init, md_update = None, md_final = None, md_cleanup = None,
         md_result_size = WC_SHA3_384_DIGEST_SIZE, md_app_datasize = Sizeof_unset\<rparr>))
      (Some a) = (r, heap1)"
    by (meson surj_pair)
  from assms a d have "r = 1" "we_sha3_384_md st' = Some a" "md_heap st' = heap1"
    by (auto simp add: we_init_sha3_384_meth_def EVP_MD_meth_new_def EVP_MD_meth_set_init_def
        EVP_MD_meth_set_result_size_def md_store_def Let_def split: if_splits)
  with we_init_digest_meth_built [OF d [unfolded \<open>r = 1\<close>]] show ?thesis
    by (simp add: built_def)
qed

lemma we_init_sha3_512_meth_built:
  assumes "we_init_sha3_512_meth os st = (1, st')"
  shows "\<exists>a. we_sha3_512_md st' = Some a \<and>
             md_heap st' a = Some (built NID_sha3_512 Fn_we_sha3_512_init WC_SHA3_512_DIGEST_SIZE)"
proof -
  from assms obtain a where a: "meth_new_result os = Some a"
    by (cases "meth_new_result os") (simp_all add: we_init_sha3_512_meth_def EVP_MD_meth_new_def)
  obtain r heap1 where d: "we_init_digest_meth os
      ((md_heap st)(a \<mapsto> \<lparr>md_type = NID_sha3_512, md_pkey_type = EVP_PKEY_NONE,
         md_init = Some Fn_we_sha3_512_init, md_update = None, md_final = None, md_cleanup = None,
         md_result_size = WC_SHA3_512_DIGEST_SIZE, md_app_datasize = Sizeof_unset\<rparr>))
      (Some a) = (r, heap1)"
    by (meson surj_pair)
  from assms a d have "r = 1" "we_sha3_512_md st' = Some a" "md_heap st' = heap1"
    by (auto simp add: we_init_sha3_512_meth_def EVP_MD_meth_new_def EVP_MD_meth_set_init_def
        EVP_MD_meth_set_result_size_def md_store_def Let_def split: if_splits)
  with we_init_digest_meth_built [OF d [unfolded \<open>r = 1\<close>]] show ?thesis
    by (simp add: built_def)
qed

text \<open>Updates do not change the tag, whether they succeed or not.\<close>

lemma run_updates_keeps_tag:
  "run_updates (we_digest_update eng) \<lparr>md_data = Some d\<rparr> chunks = Inr (ok, c) \<Longrightarrow>
   \<exists>d'. c = \<lparr>md_data = Some d'\<rparr> \<and> hashType d' = hashType d"
proof (induction chunks arbitrary: d)
  case Nil
  then show ?case by auto
next
  case (Cons ch chunks)
  obtain data len where ch: "ch = (data, len)" by (cases ch)
  obtain r h where u: "wc_HashUpdate eng (hash d) (hashType d) data (ucast len) = (r, h)"
    by (meson surj_pair)
  have upd: "we_digest_update eng \<lparr>md_data = Some d\<rparr> data len =
      Inr \<lparr>ret_val = (if r \<noteq> 0 then 0 else 1),
           ctx_after = \<lparr>md_data = Some (d\<lparr>hash := h\<rparr>)\<rparr>,
           engine_calls = [Call_wc_HashUpdate (hash d) (hashType d) data (ucast len)]\<rparr>"
    using u by (simp add: we_digest_update_def)
  show ?case
  proof (cases "r = 0")
    case True
    with Cons.prems ch upd
    have "run_updates (we_digest_update eng) \<lparr>md_data = Some (d\<lparr>hash := h\<rparr>)\<rparr> chunks =
        Inr (ok, c)"
      by simp
    from Cons.IH [OF this] show ?thesis by simp
  next
    case False
    with Cons.prems ch upd show ?thesis by auto
  qed
qed

text \<open>A computation that yields a digest yields as many bytes as the engine's size
  function gives the tag of the initialiser.\<close>

lemma digest_length:
  assumes e: "engine_digest_sizes eng"
    and r: "evp_digest (call_init f eng) (we_digest_update eng) (we_digest_final eng)
              \<lparr>md_data = Some d\<rparr> chunks = Inr (Some out)"
  shows "int (length out) = wc_HashGetDigestSize eng (init_tag f)"
proof -
  obtain r0 h0 where i: "wc_HashInit eng (hash d) (init_tag f) = (r0, h0)" by (meson surj_pair)
  have ci: "call_init f eng \<lparr>md_data = Some d\<rparr> =
      Inr \<lparr>ret_val = (if r0 \<noteq> 0 then 0 else 1),
           ctx_after = \<lparr>md_data = Some \<lparr>hash = h0, hashType = init_tag f\<rparr>\<rparr>,
           engine_calls = [Call_wc_HashInit (hash d) (init_tag f)]\<rparr>"
    using i by (cases f) (simp_all add: generic_init_defs)
  from r ci have r0: "r0 = 0" by (auto simp add: evp_digest_def split: if_splits)
  from r ci r0 obtain ok c1 where
    ru: "run_updates (we_digest_update eng) \<lparr>md_data = Some \<lparr>hash = h0, hashType = init_tag f\<rparr>\<rparr> chunks
           = Inr (ok, c1)"
    by (auto simp add: evp_digest_def split: sum.splits)
  from run_updates_keeps_tag [OF ru] obtain d1 where
    c1: "c1 = \<lparr>md_data = Some d1\<rparr>" and t: "hashType d1 = init_tag f" by auto
  obtain r2 h2 md where fi: "wc_HashFinal eng (hash d1) (init_tag f) = (r2, h2, md)"
    by (metis surj_pair)
  have fin: "we_digest_final eng c1 =
      Inr \<lparr>ret_val = (if r2 \<noteq> 0 then 0 else 1),
           ctx_after = \<lparr>md_data = Some (d1\<lparr>hash := h2\<rparr>)\<rparr>,
           engine_calls = [Call_wc_HashFinal (hash d1) (init_tag f)], md_out = md\<rparr>"
    using fi c1 t by (simp add: we_digest_final_def)
  from r ci r0 ru fin have "r2 = 0" "out = md"
    by (auto simp add: evp_digest_def split: if_splits)
  moreover from e have "fst (wc_HashFinal eng (hash d1) (init_tag f)) = 0 \<longrightarrow>
      int (length (snd (snd (wc_HashFinal eng (hash d1) (init_tag f))))) =
        wc_HashGetDigestSize eng (init_tag f)"
    unfolding engine_digest_sizes_def by blast
  ultimately show ?thesis by (simp add: fi)
qed

lemma engine_size_of_tag:
  "engine_digest_sizes eng \<Longrightarrow> t \<noteq> WC_HASH_TYPE_NONE \<Longrightarrow>
   wc_HashGetDigestSize eng t = digest_size_table t"
  by (cases t) (simp_all add: engine_digest_sizes_def)

text \<open>
  Claim C6. Let the engine store \<^verbatim>\<open>wc_HashGetDigestSize(type)\<close> bytes on a successful
  \<^verbatim>\<open>wc_HashFinal\<close>, that size being the header constant of the algorithm
  (\<open>engine_digest_sizes\<close>). Then for each of the seven registration functions that
  returns 1, its global points to a descriptor whose init, update and final are bound,
  and every computation run through these three that yields a digest (after any
  sequence of updates, none included) yields exactly as many bytes as the descriptor's
  registered result size.
\<close>

theorem registered_size_is_written_size:
  assumes m: "(reg, global) \<in> set digest_methods"
    and ok: "reg os st = (1, st')"
    and e: "engine_digest_sizes eng"
  shows "\<exists>a m f u fi.
           global st' = Some a \<and> md_heap st' a = Some m \<and>
           md_init m = Some f \<and> md_update m = Some u \<and> md_final m = Some fi \<and>
           (\<forall>d chunks out.
              evp_digest (call_init f eng) (call_update u eng) (call_final fi eng)
                \<lparr>md_data = Some d\<rparr> chunks = Inr (Some out) \<longrightarrow>
              int (length out) = md_result_size m)"
proof -
  have sz: "\<And>f d chunks out.
      evp_digest (call_init f eng) (call_update Fn_we_digest_update eng)
        (call_final Fn_we_digest_final eng) \<lparr>md_data = Some d\<rparr> chunks = Inr (Some out) \<Longrightarrow>
      int (length out) = digest_size_table (init_tag f)"
  proof -
    fix f :: init_fn and d :: "'a we_Digest" and chunks out
    assume "evp_digest (call_init f eng) (call_update Fn_we_digest_update eng)
        (call_final Fn_we_digest_final eng) \<lparr>md_data = Some d\<rparr> chunks = Inr (Some out)"
    then have "int (length out) = wc_HashGetDigestSize eng (init_tag f)"
      using digest_length [OF e] by simp
    also have "\<dots> = digest_size_table (init_tag f)"
      using engine_size_of_tag [OF e, of "init_tag f"] by (cases f) simp_all
    finally show "int (length out) = digest_size_table (init_tag f)" .
  qed
  from m consider
      "reg = we_init_sha256_meth" "global = we_sha256_md"
    | "reg = we_init_sha384_meth" "global = we_sha384_md"
    | "reg = we_init_sha512_meth" "global = we_sha512_md"
    | "reg = we_init_sha3_224_meth" "global = we_sha3_224_md"
    | "reg = we_init_sha3_256_meth" "global = we_sha3_256_md"
    | "reg = we_init_sha3_384_meth" "global = we_sha3_384_md"
    | "reg = we_init_sha3_512_meth" "global = we_sha3_512_md"
    by (auto simp add: digest_methods_def)
  then show ?thesis
  proof cases
    case 1
    with we_init_sha256_meth_built ok obtain a where
      "global st' = Some a" "md_heap st' a = Some (built NID_sha256 Fn_we_sha256_init WC_SHA256_DIGEST_SIZE)"
      by blast
    then show ?thesis using sz [of Fn_we_sha256_init] by (simp add: built_def)
  next
    case 2
    with we_init_sha384_meth_built ok obtain a where
      "global st' = Some a" "md_heap st' a = Some (built NID_sha384 Fn_we_sha384_init WC_SHA384_DIGEST_SIZE)"
      by blast
    then show ?thesis using sz [of Fn_we_sha384_init] by (simp add: built_def)
  next
    case 3
    with we_init_sha512_meth_built ok obtain a where
      "global st' = Some a" "md_heap st' a = Some (built NID_sha512 Fn_we_sha512_init WC_SHA512_DIGEST_SIZE)"
      by blast
    then show ?thesis using sz [of Fn_we_sha512_init] by (simp add: built_def)
  next
    case 4
    with we_init_sha3_224_meth_built ok obtain a where
      "global st' = Some a" "md_heap st' a = Some (built NID_sha3_224 Fn_we_sha3_224_init WC_SHA3_224_DIGEST_SIZE)"
      by blast
    then show ?thesis using sz [of Fn_we_sha3_224_init] by (simp add: built_def)
  next
    case 5
    with we_init_sha3_256_meth_built ok obtain a where
      "global st' = Some a" "md_heap st' a = Some (built NID_sha3_256 Fn_we_sha3_256_init WC_SHA3_256_DIGEST_SIZE)"
      by blast
    then show ?thesis using sz [of Fn_we_sha3_256_init] by (simp add: built_def)
  next
    case 6
    with we_init_sha3_384_meth_built ok obtain a where
      "global st' = Some a" "md_heap st' a = Some (built NID_sha3_384 Fn_we_sha3_384_init WC_SHA3_384_DIGEST_SIZE)"
      by blast
    then show ?thesis using sz [of Fn_we_sha3_384_init] by (simp add: built_def)
  next
    case 7
    with we_init_sha3_512_meth_built ok obtain a where
      "global st' = Some a" "md_heap st' a = Some (built NID_sha3_512 Fn_we_sha3_512_init WC_SHA3_512_DIGEST_SIZE)"
      by blast
    then show ?thesis using sz [of Fn_we_sha3_512_init] by (simp add: built_def)
  qed
qed

lemma digest_size_table_nonneg: "0 \<le> digest_size_table t"
  by (cases t) (simp_all add: digest_size_defs)

lemma concat_zero_sizes: "engine_digest_sizes (concat_engine zero_digest)"
  by (simp add: engine_digest_sizes_def concat_engine_def zero_digest_def
      digest_size_table_nonneg)

lemma sha384_registered:
  "we_init_sha384_meth os_ok st_start =
     (1, st_start\<lparr>we_sha384_md := Some 0,
          md_heap := [0 \<mapsto> built NID_sha384 Fn_we_sha384_init WC_SHA384_DIGEST_SIZE]\<rparr>)"
  by (simp add: we_init_sha384_meth_def EVP_MD_meth_new_def EVP_MD_meth_set_init_def
      EVP_MD_meth_set_result_size_def we_init_digest_meth_def EVP_MD_meth_set_update_def
      EVP_MD_meth_set_final_def EVP_MD_meth_set_cleanup_def EVP_MD_meth_set_app_datasize_def
      md_store_def os_ok_def st_start_def built_def)

text \<open>
  Claim C6 at work, for SHA-384: registration goes through, the engine concatenates and its digest is
  a block of zero bytes of the algorithm's size; the registered size is 48 and the
  computation over the chunk \<open>[1, 2, 3]\<close> yields 48 bytes.
\<close>

theorem registered_size_is_written_size_witness:
  "(we_init_sha384_meth, we_sha384_md) \<in> set digest_methods \<and>
   we_init_sha384_meth os_ok st_start =
     (1, st_start\<lparr>we_sha384_md := Some 0,
          md_heap := [0 \<mapsto> built NID_sha384 Fn_we_sha384_init WC_SHA384_DIGEST_SIZE]\<rparr>) \<and>
   engine_digest_sizes (concat_engine zero_digest) \<and>
   md_result_size (built NID_sha384 Fn_we_sha384_init WC_SHA384_DIGEST_SIZE) = 48 \<and>
   evp_digest (call_init Fn_we_sha384_init (concat_engine zero_digest))
     (call_update Fn_we_digest_update (concat_engine zero_digest))
     (call_final Fn_we_digest_final (concat_engine zero_digest))
     \<lparr>md_data = Some \<lparr>hash = [], hashType = WC_HASH_TYPE_NONE\<rparr>\<rparr> [([1, 2, 3], 3)] =
     Inr (Some (replicate 48 0))"
proof -
  have m: "(we_init_sha384_meth, we_sha384_md) \<in> set digest_methods"
    by (simp add: digest_methods_def)
  have run: "evp_digest (call_init Fn_we_sha384_init (concat_engine zero_digest))
       (we_digest_update (concat_engine zero_digest)) (we_digest_final (concat_engine zero_digest))
       \<lparr>md_data = Some \<lparr>hash = [], hashType = WC_HASH_TYPE_NONE\<rparr>\<rparr> [([1, 2, 3], 3)] =
     Inr (Some (zero_digest WC_HASH_TYPE_SHA384 [1, 2, 3]))"
    using evp_digest_concat [of "[([1, 2, 3], 3)]" Fn_we_sha384_init zero_digest] by simp
  from registered_size_is_written_size [OF m sha384_registered concat_zero_sizes] m run
  show ?thesis
    by (simp add: sha384_registered concat_zero_sizes built_def zero_digest_def
        WC_SHA384_DIGEST_SIZE_def)
qed

section \<open>A registration that fails\<close>











text \<open>
  The branch for a binding step that returns other than 1, which the setters above do
  not take. For each of the seven registration functions and whatever the setters
  return, a return value other than 1 comes with the descriptor freed, if one was
  allocated, and with the global as \<^verbatim>\<open>EVP_MD_meth_new\<close> set it.
\<close>

lemma we_init_sha256_meth_failed:
  assumes "we_init_sha256_meth os st = (ret, st')" and "ret \<noteq> 1"
  shows "we_sha256_md st' = meth_new_result os \<and>
         (case meth_new_result os of None \<Rightarrow> True | Some a \<Rightarrow> md_heap st' a = None)"
  using assms
  by (auto simp add: we_init_sha256_meth_def EVP_MD_meth_new_def EVP_MD_meth_free_def Let_def
      split: if_splits prod.splits option.splits)

lemma we_init_sha384_meth_failed:
  assumes "we_init_sha384_meth os st = (ret, st')" and "ret \<noteq> 1"
  shows "we_sha384_md st' = meth_new_result os \<and>
         (case meth_new_result os of None \<Rightarrow> True | Some a \<Rightarrow> md_heap st' a = None)"
  using assms
  by (auto simp add: we_init_sha384_meth_def EVP_MD_meth_new_def EVP_MD_meth_free_def Let_def
      split: if_splits prod.splits option.splits)

lemma we_init_sha512_meth_failed:
  assumes "we_init_sha512_meth os st = (ret, st')" and "ret \<noteq> 1"
  shows "we_sha512_md st' = meth_new_result os \<and>
         (case meth_new_result os of None \<Rightarrow> True | Some a \<Rightarrow> md_heap st' a = None)"
  using assms
  by (auto simp add: we_init_sha512_meth_def EVP_MD_meth_new_def EVP_MD_meth_free_def Let_def
      split: if_splits prod.splits option.splits)

lemma we_init_sha3_224_meth_failed:
  assumes "we_init_sha3_224_meth os st = (ret, st')" and "ret \<noteq> 1"
  shows "we_sha3_224_md st' = meth_new_result os \<and>
         (case meth_new_result os of None \<Rightarrow> True | Some a \<Rightarrow> md_heap st' a = None)"
  using assms
  by (auto simp add: we_init_sha3_224_meth_def EVP_MD_meth_new_def EVP_MD_meth_free_def Let_def
      split: if_splits prod.splits option.splits)

lemma we_init_sha3_256_meth_failed:
  assumes "we_init_sha3_256_meth os st = (ret, st')" and "ret \<noteq> 1"
  shows "we_sha3_256_md st' = meth_new_result os \<and>
         (case meth_new_result os of None \<Rightarrow> True | Some a \<Rightarrow> md_heap st' a = None)"
  using assms
  by (auto simp add: we_init_sha3_256_meth_def EVP_MD_meth_new_def EVP_MD_meth_free_def Let_def
      split: if_splits prod.splits option.splits)

lemma we_init_sha3_384_meth_failed:
  assumes "we_init_sha3_384_meth os st = (ret, st')" and "ret \<noteq> 1"
  shows "we_sha3_384_md st' = meth_new_result os \<and>
         (case meth_new_result os of None \<Rightarrow> True | Some a \<Rightarrow> md_heap st' a = None)"
  using assms
  by (auto simp add: we_init_sha3_384_meth_def EVP_MD_meth_new_def EVP_MD_meth_free_def Let_def
      split: if_splits prod.splits option.splits)

lemma we_init_sha3_512_meth_failed:
  assumes "we_init_sha3_512_meth os st = (ret, st')" and "ret \<noteq> 1"
  shows "we_sha3_512_md st' = meth_new_result os \<and>
         (case meth_new_result os of None \<Rightarrow> True | Some a \<Rightarrow> md_heap st' a = None)"
  using assms
  by (auto simp add: we_init_sha3_512_meth_def EVP_MD_meth_new_def EVP_MD_meth_free_def Let_def
      split: if_splits prod.splits option.splits)

lemma failed_registration_general:
  assumes m: "(reg, global) \<in> set digest_methods"
    and r: "reg os st = (ret, st')" and f: "ret \<noteq> 1"
  shows "global st' = meth_new_result os \<and>
         (case meth_new_result os of None \<Rightarrow> True | Some a \<Rightarrow> md_heap st' a = None)"
proof -
  from m consider
      "reg = we_init_sha256_meth" "global = we_sha256_md"
    | "reg = we_init_sha384_meth" "global = we_sha384_md"
    | "reg = we_init_sha512_meth" "global = we_sha512_md"
    | "reg = we_init_sha3_224_meth" "global = we_sha3_224_md"
    | "reg = we_init_sha3_256_meth" "global = we_sha3_256_md"
    | "reg = we_init_sha3_384_meth" "global = we_sha3_384_md"
    | "reg = we_init_sha3_512_meth" "global = we_sha3_512_md"
    by (auto simp add: digest_methods_def)
  then show ?thesis
  proof cases
    case 1 with r f show ?thesis using we_init_sha256_meth_failed by blast
  next
    case 2 with r f show ?thesis using we_init_sha384_meth_failed by blast
  next
    case 3 with r f show ?thesis using we_init_sha512_meth_failed by blast
  next
    case 4 with r f show ?thesis using we_init_sha3_224_meth_failed by blast
  next
    case 5 with r f show ?thesis using we_init_sha3_256_meth_failed by blast
  next
    case 6 with r f show ?thesis using we_init_sha3_384_meth_failed by blast
  next
    case 7 with r f show ?thesis using we_init_sha3_512_meth_failed by blast
  qed
qed

section \<open>Cleanup on a context without session data\<close>

text \<open>
  Claim C9. When \<^verbatim>\<open>EVP_MD_CTX_md_data(ctx)\<close> is \<^verbatim>\<open>NULL\<close>, the generic cleanup
  returns 1, makes no engine call (so \<^verbatim>\<open>wc_HashFree\<close> is not called) and leaves the
  context as it was: a guarded no-op, in both compiled variants and for every engine.
\<close>

theorem we_digest_cleanup_null_noop:
  "we_digest_cleanup cfg eng \<lparr>md_data = None\<rparr> =
     \<lparr>ret_val = 1, ctx_after = \<lparr>md_data = None\<rparr>, engine_calls = []\<rparr>"
  by (simp add: we_digest_cleanup_def)

end
